theory Spec2Isabelle
  imports Main "HOL-Library.Word"
begin

section \<open>Muffin's Cogl utilities (src/compositor/cogl-utils.c)\<close>

text \<open>
  The file wraps texture and material constructors of the Cogl library. Its own state is
  five static variables; everything else it does is a call to a collaborator (Cogl,
  Clutter, GDK, the logging sink). The embedding threads a state record through every
  function. The record holds the static variables, the list of collaborator calls made so
  far (in order), and the objects the Cogl library has allocated.
\<close>

subsection \<open>C types\<close>

text \<open>
  \<open>gint\<close> and \<open>int\<close> are 32-bit two's complement values, read with \<open>sint\<close>. Pointers
  and Cogl handles are addresses; \<open>NULL\<close> and \<open>COGL_INVALID_HANDLE\<close> are the address 0.
  A \<open>const uint8_t *\<close> buffer is the list of its bytes, a \<open>const char *\<close> is a string.
\<close>

type_synonym guint8 = "8 word"
type_synonym gint = "32 word"
type_synonym pointer = nat
type_synonym CoglHandle = nat
type_synonym CoglTextureFlags = nat

definition NULL :: pointer where
  "NULL = 0"

definition COGL_INVALID_HANDLE :: CoglHandle where
  "COGL_INVALID_HANDLE = 0"

definition COGL_TEXTURE_NONE :: CoglTextureFlags where
  "COGL_TEXTURE_NONE = 0"

text \<open>
  The pixel formats the file names; every other member of Cogl's enumeration is
  \<open>COGL_PIXEL_FORMAT_OTHER n\<close>.
\<close>

datatype CoglPixelFormat =
    COGL_PIXEL_FORMAT_ANY
  | COGL_PIXEL_FORMAT_RGBA_8888_PRE
  | CLUTTER_CAIRO_FORMAT_ARGB32
  | COGL_PIXEL_FORMAT_OTHER nat

datatype CoglError = CoglError (message: string)

text \<open>
  Signed overflow is undefined behaviour in C. The only arithmetic of the file is
  \<open>screen_width * 2\<close> and \<open>screen_height * 2\<close>; where the product does not fit a
  \<open>gint\<close> the model stops with \<open>Signed_overflow\<close>.
\<close>

datatype fault = Signed_overflow

definition gint_fits :: "int \<Rightarrow> bool" where
  "gint_fits i \<longleftrightarrow> - (2 ^ 31) \<le> i \<and> i < 2 ^ 31"

definition gint_mul :: "gint \<Rightarrow> gint \<Rightarrow> fault + gint" where
  "gint_mul a b = (if gint_fits (sint a * sint b) then Inr (a * b) else Inl Signed_overflow)"

text \<open>GLib's macro \<open>MIN (a, b)\<close> is \<open>(((a) < (b)) ? (a) : (b))\<close>, here on signed ints.\<close>

definition MIN_gint :: "gint \<Rightarrow> gint \<Rightarrow> gint" where
  "MIN_gint a b = (if a <s b then a else b)"

subsection \<open>Calls to collaborators\<close>

text \<open>
  One constructor for each library function the file calls, with the arguments passed.
  The optional format of the three \<open>cogl_texture_2d_new_*\<close> calls is the argument that
  is compiled in only when \<open>COGL_VERSION < COGL_VERSION_ENCODE (1, 18, 0)\<close>.
  \<open>Cogl_has_feature\<close> is always asked for \<open>COGL_FEATURE_ID_TEXTURE_NPOT\<close>.
\<close>

datatype call =
    Cogl_texture_new_from_data gint gint CoglTextureFlags CoglPixelFormat CoglPixelFormat
      gint "guint8 list"
  | Cogl_texture_2d_new_from_data pointer gint gint CoglPixelFormat "CoglPixelFormat option"
      gint "guint8 list"
  | Cogl_texture_new_from_file string CoglTextureFlags CoglPixelFormat
  | Cogl_texture_2d_new_from_file pointer string "CoglPixelFormat option"
  | Cogl_texture_new_with_size gint gint CoglTextureFlags CoglPixelFormat
  | Cogl_texture_2d_new_with_size pointer gint gint "CoglPixelFormat option"
  | Cogl_material_new
  | Cogl_material_copy CoglHandle
  | Cogl_material_set_layer CoglHandle nat CoglHandle
  | Cogl_handle_unref CoglHandle
  | Clutter_get_default_backend
  | Clutter_backend_get_cogl_context pointer
  | Cogl_has_feature pointer
  | Gdk_screen_get_default
  | Gdk_screen_get_width pointer
  | Gdk_screen_get_height pointer
  | Meta_verbose string
  | Cogl_error_free CoglError

subsection \<open>The state\<close>

text \<open>
  Modelled from the spec: the objects behind Cogl handles, which live in the Cogl library
  and not in this file. A texture is remembered by the constructor call that made it, a
  material by its layers (layer index and texture handle, latest first). The handle of
  an object is its position in the list of objects, counted from 1, so that a new object
  never takes the handle of an older one. Reference counts are not modelled: no object
  is ever dropped.
\<close>

datatype cogl_object =
    Texture call
  | Material "(nat \<times> CoglHandle) list"

record state =
  texture_material_template :: CoglHandle
  cogl_context :: pointer
  supports_npot :: bool
  screen_width :: gint
  screen_height :: gint
  calls :: "call list"
  objects :: "cogl_object list"

text \<open>The state at process start: the initialisers of the five static variables.\<close>

definition initial_state :: state where
  "initial_state =
     \<lparr>texture_material_template = COGL_INVALID_HANDLE, cogl_context = NULL,
      supports_npot = False, screen_width = 0, screen_height = 0, calls = [], objects = []\<rparr>"

subsection \<open>The collaborators\<close>

text \<open>
  What the libraries answer is not decided by this file. Each answer is a parameter: a
  function of the calls made so far, the call being answered last. So an answer may
  change from one call to the next, as a screen that appears late or a feature that goes
  away would make it. \<open>cogl_pre_1_18\<close> is the compile-time test
  \<open>COGL_VERSION < COGL_VERSION_ENCODE (1, 18, 0)\<close>. The \<open>CoglColor\<close> functions work on a
  local variable only; \<open>'c\<close> is the type of a \<open>CoglColor\<close>.
\<close>

record 'c env =
  cogl_pre_1_18 :: bool
  cogl_color_set_from_4ub :: "guint8 \<Rightarrow> guint8 \<Rightarrow> guint8 \<Rightarrow> guint8 \<Rightarrow> 'c"
  cogl_color_premultiply :: "'c \<Rightarrow> 'c"
  cogl_color_get_red_byte :: "'c \<Rightarrow> guint8"
  cogl_color_get_green_byte :: "'c \<Rightarrow> guint8"
  cogl_color_get_blue_byte :: "'c \<Rightarrow> guint8"
  cogl_color_get_alpha_byte :: "'c \<Rightarrow> guint8"
  default_backend :: "call list \<Rightarrow> pointer"
  backend_context :: "call list \<Rightarrow> pointer"
  has_npot_feature :: "call list \<Rightarrow> bool"
  default_screen :: "call list \<Rightarrow> pointer"
  screen_width_of :: "call list \<Rightarrow> gint"
  screen_height_of :: "call list \<Rightarrow> gint"
  texture_failure :: "call list \<Rightarrow> CoglError option"

definition record_call :: "call \<Rightarrow> state \<Rightarrow> state" where
  "record_call c s = s\<lparr>calls := calls s @ [c]\<rparr>"

text \<open>A call that returns a value: it is recorded, then answered.\<close>

definition extern :: "(call list \<Rightarrow> 'r) \<Rightarrow> call \<Rightarrow> state \<Rightarrow> 'r \<times> state" where
  "extern answer c s = (let s' = record_call c s in (answer (calls s'), s'))"

definition object_at :: "state \<Rightarrow> CoglHandle \<Rightarrow> cogl_object option" where
  "object_at s h = (if 0 < h \<and> h \<le> length (objects s) then Some (objects s ! (h - 1)) else None)"

definition new_object :: "cogl_object \<Rightarrow> state \<Rightarrow> CoglHandle \<times> state" where
  "new_object obj s = (Suc (length (objects s)), s\<lparr>objects := objects s @ [obj]\<rparr>)"

text \<open>
  Modelled from the spec: a texture constructor of the Cogl library. It either fails,
  with the library's error and an invalid handle, or allocates a texture. Whether it
  fails is the collaborator's answer.
\<close>

definition construct_texture ::
  "'c env \<Rightarrow> call \<Rightarrow> state \<Rightarrow> (CoglHandle \<times> CoglError option) \<times> state" where
  "construct_texture env c s =
     (let (failure, s1) = extern (texture_failure env) c s in
      case failure of
        Some err \<Rightarrow> ((COGL_INVALID_HANDLE, Some err), s1)
      | None \<Rightarrow> (let (h, s2) = new_object (Texture c) s1 in ((h, None), s2)))"

text \<open>
  The legacy constructors \<open>cogl_texture_new_from_data\<close> and \<open>cogl_texture_new_with_size\<close>
  and the newer \<open>cogl_texture_2d_new_with_size\<close> are called without an error argument:
  only the handle comes back.
\<close>

definition construct_texture_no_error :: "'c env \<Rightarrow> call \<Rightarrow> state \<Rightarrow> CoglHandle \<times> state" where
  "construct_texture_no_error env c s =
     (let ((texture, error), s1) = construct_texture env c s in (texture, s1))"

text \<open>
  Modelled from the spec: Cogl's materials. \<open>cogl_material_new\<close> allocates a material
  without layers, \<open>cogl_material_copy\<close> allocates a material with the layers of its
  source, \<open>cogl_material_set_layer\<close> puts a texture at a layer index of a material.
\<close>

definition cogl_material_new :: "state \<Rightarrow> CoglHandle \<times> state" where
  "cogl_material_new s = new_object (Material []) (record_call Cogl_material_new s)"

definition cogl_material_copy :: "CoglHandle \<Rightarrow> state \<Rightarrow> CoglHandle \<times> state" where
  "cogl_material_copy source s =
     (let s1 = record_call (Cogl_material_copy source) s in
      case object_at s1 source of
        Some (Material layers) \<Rightarrow> new_object (Material layers) s1
      | _ \<Rightarrow> new_object (Material []) s1)"

definition cogl_material_set_layer :: "CoglHandle \<Rightarrow> nat \<Rightarrow> CoglHandle \<Rightarrow> state \<Rightarrow> state" where
  "cogl_material_set_layer material layer_index texture s =
     (let s1 = record_call (Cogl_material_set_layer material layer_index texture) s in
      case object_at s1 material of
        Some (Material layers) \<Rightarrow>
          s1\<lparr>objects := (objects s1)[material - 1 := Material ((layer_index, texture) # layers)]\<rparr>
      | _ \<Rightarrow> s1)"

text \<open>The layers of a material; none for a handle that is not a material.\<close>

definition layers_of :: "state \<Rightarrow> CoglHandle \<Rightarrow> (nat \<times> CoglHandle) list" where
  "layers_of s material =
     (case object_at s material of Some (Material layers) \<Rightarrow> layers | _ \<Rightarrow> [])"


subsection \<open>The functions of the file\<close>

text \<open>\<open>meta_create_color_texture_4ub\<close>, lines 48 to 71.\<close>

definition meta_create_color_texture_4ub ::
  "'c env \<Rightarrow> guint8 \<Rightarrow> guint8 \<Rightarrow> guint8 \<Rightarrow> guint8 \<Rightarrow> CoglTextureFlags \<Rightarrow> state
     \<Rightarrow> CoglHandle \<times> state" where
  "meta_create_color_texture_4ub env red green blue alpha flags s =
     (let color = cogl_color_set_from_4ub env red green blue alpha;
          color = cogl_color_premultiply env color;
          pixel = [cogl_color_get_red_byte env color,
                   cogl_color_get_green_byte env color,
                   cogl_color_get_blue_byte env color,
                   cogl_color_get_alpha_byte env color]
      in construct_texture_no_error env
           (Cogl_texture_new_from_data 1 1 flags COGL_PIXEL_FORMAT_RGBA_8888_PRE
              COGL_PIXEL_FORMAT_ANY 4 pixel) s)"

text \<open>\<open>meta_create_texture_material\<close>, lines 88 to 116.\<close>

definition meta_create_texture_material :: "'c env \<Rightarrow> CoglHandle \<Rightarrow> state \<Rightarrow> CoglHandle \<times> state" where
  "meta_create_texture_material env src_texture s =
     (let s1 =
        (if texture_material_template s = COGL_INVALID_HANDLE then
           (let (dummy_texture, sa) =
                  meta_create_color_texture_4ub env 0xff 0xff 0xff 0xff COGL_TEXTURE_NONE s;
                (fresh, sb) = cogl_material_new sa;
                sc = sb\<lparr>texture_material_template := fresh\<rparr>;
                sd = cogl_material_set_layer (texture_material_template sc) 0 dummy_texture sc
            in record_call (Cogl_handle_unref dummy_texture) sd)
         else s);
          (material, s2) = cogl_material_copy (texture_material_template s1) s1;
          s3 = (if src_texture \<noteq> COGL_INVALID_HANDLE
                then cogl_material_set_layer material 0 src_texture s2 else s2)
      in (material, s3))"

text \<open>\<open>hardware_supports_npot_sizes\<close>, lines 127 to 138.\<close>

definition hardware_supports_npot_sizes :: "'c env \<Rightarrow> state \<Rightarrow> bool \<times> state" where
  "hardware_supports_npot_sizes env s =
     (if cogl_context s \<noteq> NULL then (supports_npot s, s)
      else
        (let (backend, s1) = extern (default_backend env) Clutter_get_default_backend s;
             (context, s2) =
               extern (backend_context env) (Clutter_backend_get_cogl_context backend) s1;
             s3 = s2\<lparr>cogl_context := context\<rparr>;
             (feature, s4) = extern (has_npot_feature env) (Cogl_has_feature (cogl_context s3)) s3;
             s5 = s4\<lparr>supports_npot := feature\<rparr>
         in (supports_npot s5, s5)))"

text \<open>\<open>clamp_sizes\<close>, lines 140 to 154. The two out-parameters are returned.\<close>

definition clamp_sizes :: "'c env \<Rightarrow> gint \<Rightarrow> gint \<Rightarrow> state \<Rightarrow> fault + ((gint \<times> gint) \<times> state)" where
  "clamp_sizes env width height s =
     (let s1 =
        (if screen_width s = 0 then
           (let (screen, sa) = extern (default_screen env) Gdk_screen_get_default s;
                (w, sb) = extern (screen_width_of env) (Gdk_screen_get_width screen) sa;
                sc = sb\<lparr>screen_width := w\<rparr>;
                (h, sd) = extern (screen_height_of env) (Gdk_screen_get_height screen) sc
            in sd\<lparr>screen_height := h\<rparr>)
         else s)
      in case gint_mul (screen_width s1) 2 of
           Inl f \<Rightarrow> Inl f
         | Inr width2 \<Rightarrow>
             (case gint_mul (screen_height s1) 2 of
                Inl f \<Rightarrow> Inl f
              | Inr height2 \<Rightarrow> Inr ((MIN_gint width width2, MIN_gint height height2), s1)))"

text \<open>The error branch shared by the wrappers: log the message, free the error.\<close>

definition report_error :: "string \<Rightarrow> CoglError option \<Rightarrow> state \<Rightarrow> state" where
  "report_error prefix error s =
     (case error of
        None \<Rightarrow> s
      | Some e \<Rightarrow>
          record_call (Cogl_error_free e)
            (record_call (Meta_verbose (prefix @ message e @ [CHR 0x0A])) s))"

text \<open>The calls of that branch, for a given error.\<close>

definition error_report_calls :: "string \<Rightarrow> CoglError option \<Rightarrow> call list" where
  "error_report_calls prefix error =
     (case error of
        None \<Rightarrow> []
      | Some e \<Rightarrow> [Meta_verbose (prefix @ message e @ [CHR 0x0A]), Cogl_error_free e])"

definition version_format :: "'c env \<Rightarrow> CoglPixelFormat \<Rightarrow> CoglPixelFormat option" where
  "version_format env f = (if cogl_pre_1_18 env then Some f else None)"

text \<open>\<open>meta_cogl_texture_new_from_data_wrapper\<close>, lines 164 to 207.\<close>

definition meta_cogl_texture_new_from_data_wrapper ::
  "'c env \<Rightarrow> gint \<Rightarrow> gint \<Rightarrow> CoglTextureFlags \<Rightarrow> CoglPixelFormat \<Rightarrow> CoglPixelFormat \<Rightarrow> gint
     \<Rightarrow> guint8 list \<Rightarrow> state \<Rightarrow> fault + (CoglHandle \<times> state)" where
  "meta_cogl_texture_new_from_data_wrapper env width height flags format internal_format
       rowstride data s =
     (case clamp_sizes env width height s of
        Inl f \<Rightarrow> Inl f
      | Inr ((width, height), s1) \<Rightarrow>
          (let (npot, s2) = hardware_supports_npot_sizes env s1 in
           if npot then
             (let ((texture, error), s3) =
                    construct_texture env
                      (Cogl_texture_2d_new_from_data (cogl_context s2) width height format
                         (version_format env COGL_PIXEL_FORMAT_ANY) rowstride data) s2
              in Inr (texture, report_error ''cogl_texture_2d_new_from_data failed: '' error s3))
           else
             Inr (construct_texture_no_error env
                    (Cogl_texture_new_from_data width height flags format internal_format
                       rowstride data) s2)))"

text \<open>\<open>meta_cogl_texture_new_from_file_wrapper\<close>, lines 217 to 249.\<close>

definition meta_cogl_texture_new_from_file_wrapper ::
  "'c env \<Rightarrow> string \<Rightarrow> CoglTextureFlags \<Rightarrow> CoglPixelFormat \<Rightarrow> state \<Rightarrow> CoglHandle \<times> state" where
  "meta_cogl_texture_new_from_file_wrapper env filename flags internal_format s =
     (let (npot, s1) = hardware_supports_npot_sizes env s;
          ((texture, error), s2) =
            (if npot then
               construct_texture env
                 (Cogl_texture_2d_new_from_file (cogl_context s1) filename
                    (version_format env COGL_PIXEL_FORMAT_ANY)) s1
             else
               construct_texture env
                 (Cogl_texture_new_from_file filename flags internal_format) s1)
      in (texture, report_error ''cogl_texture_(2d)_new_from_file failed: '' error s2))"

text \<open>\<open>meta_cogl_texture_new_with_size_wrapper\<close>, lines 259 to 287.\<close>

definition meta_cogl_texture_new_with_size_wrapper ::
  "'c env \<Rightarrow> gint \<Rightarrow> gint \<Rightarrow> CoglTextureFlags \<Rightarrow> CoglPixelFormat \<Rightarrow> state
     \<Rightarrow> fault + (CoglHandle \<times> state)" where
  "meta_cogl_texture_new_with_size_wrapper env width height flags internal_format s =
     (case clamp_sizes env width height s of
        Inl f \<Rightarrow> Inl f
      | Inr ((width, height), s1) \<Rightarrow>
          (let (npot, s2) = hardware_supports_npot_sizes env s1 in
           if npot then
             Inr (construct_texture_no_error env
                    (Cogl_texture_2d_new_with_size (cogl_context s2) width height
                       (version_format env CLUTTER_CAIRO_FORMAT_ARGB32)) s2)
           else
             Inr (construct_texture_no_error env
                    (Cogl_texture_new_with_size width height flags internal_format) s2)))"

subsection \<open>Sequences of calls into the file\<close>

text \<open>
  A process uses the file by calling its functions one after another. \<open>invoke\<close> is one
  call with its result, \<open>run\<close> a sequence of calls from a state. The two static helper
  functions are included, so that statements about every call of them can be made.
\<close>

datatype api_call =
    Create_color_texture guint8 guint8 guint8 guint8 CoglTextureFlags
  | Create_texture_material CoglHandle
  | Supports_npot_sizes
  | Clamp_sizes gint gint
  | New_from_data gint gint CoglTextureFlags CoglPixelFormat CoglPixelFormat gint "guint8 list"
  | New_from_file string CoglTextureFlags CoglPixelFormat
  | New_with_size gint gint CoglTextureFlags CoglPixelFormat

datatype api_result =
    Handle CoglHandle
  | Flag bool
  | Sizes gint gint

fun invoke :: "'c env \<Rightarrow> api_call \<Rightarrow> state \<Rightarrow> fault + (api_result \<times> state)" where
  "invoke env (Create_color_texture red green blue alpha flags) s =
     (let (texture, s') = meta_create_color_texture_4ub env red green blue alpha flags s
      in Inr (Handle texture, s'))"
| "invoke env (Create_texture_material src_texture) s =
     (let (material, s') = meta_create_texture_material env src_texture s
      in Inr (Handle material, s'))"
| "invoke env Supports_npot_sizes s =
     (let (npot, s') = hardware_supports_npot_sizes env s in Inr (Flag npot, s'))"
| "invoke env (Clamp_sizes width height) s =
     (case clamp_sizes env width height s of
        Inl f \<Rightarrow> Inl f
      | Inr ((width', height'), s') \<Rightarrow> Inr (Sizes width' height', s'))"
| "invoke env (New_from_data width height flags format internal_format rowstride data) s =
     (case meta_cogl_texture_new_from_data_wrapper env width height flags format
             internal_format rowstride data s of
        Inl f \<Rightarrow> Inl f
      | Inr (texture, s') \<Rightarrow> Inr (Handle texture, s'))"
| "invoke env (New_from_file filename flags internal_format) s =
     (let (texture, s') = meta_cogl_texture_new_from_file_wrapper env filename flags
                            internal_format s
      in Inr (Handle texture, s'))"
| "invoke env (New_with_size width height flags internal_format) s =
     (case meta_cogl_texture_new_with_size_wrapper env width height flags internal_format s of
        Inl f \<Rightarrow> Inl f
      | Inr (texture, s') \<Rightarrow> Inr (Handle texture, s'))"

fun run :: "'c env \<Rightarrow> api_call list \<Rightarrow> state \<Rightarrow> fault + (api_result list \<times> state)" where
  "run env [] s = Inr ([], s)"
| "run env (c # cs) s =
     (case invoke env c s of
        Inl f \<Rightarrow> Inl f
      | Inr (r, s1) \<Rightarrow>
          (case run env cs s1 of
             Inl f \<Rightarrow> Inl f
           | Inr (rs, s2) \<Rightarrow> Inr (r # rs, s2)))"

subsection \<open>Reading the list of calls\<close>

text \<open>The calls made between an earlier state and a later one.\<close>

definition new_calls :: "state \<Rightarrow> state \<Rightarrow> call list" where
  "new_calls s s' = drop (length (calls s)) (calls s')"

fun is_texture_constructor :: "call \<Rightarrow> bool" where
  "is_texture_constructor (Cogl_texture_new_from_data w h fl f i r d) = True"
| "is_texture_constructor (Cogl_texture_2d_new_from_data c w h f v r d) = True"
| "is_texture_constructor (Cogl_texture_new_from_file n fl i) = True"
| "is_texture_constructor (Cogl_texture_2d_new_from_file c n v) = True"
| "is_texture_constructor (Cogl_texture_new_with_size w h fl i) = True"
| "is_texture_constructor (Cogl_texture_2d_new_with_size c w h v) = True"
| "is_texture_constructor _ = False"

fun is_capability_query :: "call \<Rightarrow> bool" where
  "is_capability_query Clutter_get_default_backend = True"
| "is_capability_query (Clutter_backend_get_cogl_context b) = True"
| "is_capability_query (Cogl_has_feature c) = True"
| "is_capability_query _ = False"

fun is_screen_query :: "call \<Rightarrow> bool" where
  "is_screen_query Gdk_screen_get_default = True"
| "is_screen_query (Gdk_screen_get_width p) = True"
| "is_screen_query (Gdk_screen_get_height p) = True"
| "is_screen_query _ = False"

fun is_error_report :: "call \<Rightarrow> bool" where
  "is_error_report (Meta_verbose m) = True"
| "is_error_report (Cogl_error_free e) = True"
| "is_error_report _ = False"

text \<open>The width and height a texture constructor is asked for, where it takes them.\<close>

fun size_args :: "call \<Rightarrow> (gint \<times> gint) option" where
  "size_args (Cogl_texture_new_from_data w h fl f i r d) = Some (w, h)"
| "size_args (Cogl_texture_2d_new_from_data c w h f v r d) = Some (w, h)"
| "size_args (Cogl_texture_new_with_size w h fl i) = Some (w, h)"
| "size_args (Cogl_texture_2d_new_with_size c w h v) = Some (w, h)"
| "size_args _ = None"

text \<open>
  The format of the pixel data a texture constructor is given, where it takes one: only
  the two from-data constructors do. The other format argument of the constructors is
  the internal format.
\<close>

fun pixel_format_arg :: "call \<Rightarrow> CoglPixelFormat option" where
  "pixel_format_arg (Cogl_texture_new_from_data w h fl f i r d) = Some f"
| "pixel_format_arg (Cogl_texture_2d_new_from_data c w h f v r d) = Some f"
| "pixel_format_arg _ = None"

text \<open>The four bytes of a colour in the order red, green, blue, alpha.\<close>

definition rgba_bytes :: "'c env \<Rightarrow> 'c \<Rightarrow> guint8 list" where
  "rgba_bytes env color =
     [cogl_color_get_red_byte env color, cogl_color_get_green_byte env color,
      cogl_color_get_blue_byte env color, cogl_color_get_alpha_byte env color]"

definition premultiplied_pixel :: "'c env \<Rightarrow> guint8 \<Rightarrow> guint8 \<Rightarrow> guint8 \<Rightarrow> guint8 \<Rightarrow> guint8 list" where
  "premultiplied_pixel env red green blue alpha =
     rgba_bytes env (cogl_color_premultiply env (cogl_color_set_from_4ub env red green blue alpha))"

text \<open>The request for the dummy texture of the template material.\<close>

definition white_texture_call :: "'c env \<Rightarrow> call" where
  "white_texture_call env =
     Cogl_texture_new_from_data 1 1 COGL_TEXTURE_NONE COGL_PIXEL_FORMAT_RGBA_8888_PRE
       COGL_PIXEL_FORMAT_ANY 4 (premultiplied_pixel env 0xff 0xff 0xff 0xff)"




subsection \<open>Relations between an earlier and a later state\<close>

text \<open>
  The caches are kept from \<open>s\<close> to \<open>s'\<close>: the calls of \<open>s\<close> are the first calls of
  \<open>s'\<close>; if the capability cache of \<open>s\<close> is filled, \<open>s'\<close> holds the same context and
  answer and no capability query was made in between; if the screen-size cache of \<open>s\<close> is
  filled, \<open>s'\<close> holds the same size and no screen query was made in between.
\<close>

definition caches_kept :: "state \<Rightarrow> state \<Rightarrow> bool" where
  "caches_kept s s' \<longleftrightarrow>
     (\<exists>new. calls s' = calls s @ new
        \<and> (cogl_context s \<noteq> NULL \<longrightarrow>
             cogl_context s' = cogl_context s \<and> supports_npot s' = supports_npot s
             \<and> filter is_capability_query new = [])
        \<and> (screen_width s \<noteq> 0 \<longrightarrow>
             screen_width s' = screen_width s \<and> screen_height s' = screen_height s
             \<and> filter is_screen_query new = []))"



subsection \<open>Collaborators for running the model\<close>

text \<open>
  A test double with constant answers: a backend at address 5 whose context is at
  address 7, a screen at address 9, colours as four bytes that are premultiplied with
  rounding. Its parameters are the feature answer, the failure of texture constructors,
  and the size of the screen.
\<close>

type_synonym bytes4 = "guint8 \<times> guint8 \<times> guint8 \<times> guint8"

definition scale_byte :: "guint8 \<Rightarrow> guint8 \<Rightarrow> guint8" where
  "scale_byte c a = word_of_nat ((unat c * unat a + 128) div 255)"

definition test_env :: "bool \<Rightarrow> CoglError option \<Rightarrow> gint \<Rightarrow> gint \<Rightarrow> bytes4 env" where
  "test_env npot failure w h =
     \<lparr>cogl_pre_1_18 = False,
      cogl_color_set_from_4ub = (\<lambda>r g b a. (r, g, b, a)),
      cogl_color_premultiply = (\<lambda>(r, g, b, a). (scale_byte r a, scale_byte g a, scale_byte b a, a)),
      cogl_color_get_red_byte = (\<lambda>(r, g, b, a). r),
      cogl_color_get_green_byte = (\<lambda>(r, g, b, a). g),
      cogl_color_get_blue_byte = (\<lambda>(r, g, b, a). b),
      cogl_color_get_alpha_byte = (\<lambda>(r, g, b, a). a),
      default_backend = (\<lambda>cs. 5),
      backend_context = (\<lambda>cs. 7),
      has_npot_feature = (\<lambda>cs. npot),
      default_screen = (\<lambda>cs. 9),
      screen_width_of = (\<lambda>cs. w),
      screen_height_of = (\<lambda>cs. h),
      texture_failure = (\<lambda>cs. failure)\<rparr>"

text \<open>
  A screen that is not there when first asked and is 1920 by 1080 afterwards: the first
  three calls of a process get the answer 0.
\<close>

definition late_screen_env :: "bytes4 env" where
  "late_screen_env =
     (test_env True None 0 0)
       \<lparr>screen_width_of := (\<lambda>cs. if length cs \<le> 3 then 0 else 1920),
        screen_height_of := (\<lambda>cs. if length cs \<le> 3 then 0 else 1080)\<rparr>"

text \<open>Process states with the caches filled.\<close>

definition screen_1920_state :: state where
  "screen_1920_state = initial_state\<lparr>screen_width := 1920, screen_height := 1080\<rparr>"

definition cached_state :: "bool \<Rightarrow> state" where
  "cached_state npot = screen_1920_state\<lparr>cogl_context := 7, supports_npot := npot\<rparr>"



section \<open>Properties\<close>

subsection \<open>Arithmetic on \<open>gint\<close>\<close>

lemma sint_double:
  "gint_fits (2 * sint (a :: gint)) \<Longrightarrow> sint (a * 2) = 2 * sint a"
  unfolding gint_fits_def
  by (simp add: sint_word_ariths signed_take_bit_int_eq_self mult.commute)

lemma gint_mul_2:
  "gint_mul a 2 = (if gint_fits (2 * sint a) then Inr (a * 2) else Inl Signed_overflow)"
  by (simp add: gint_mul_def mult.commute)

lemma sint_MIN_gint: "sint (MIN_gint a b) = min (sint a) (sint b)"
  by (simp add: MIN_gint_def word_sless_alt min_def)

lemma gint_eq_sint: "sint (a :: gint) = sint b \<Longrightarrow> a = b"
  by (rule signed_word_eqI)

subsection \<open>What each function does, as one equation\<close>

lemma new_calls_append [simp]: "calls s' = calls s @ cs \<Longrightarrow> new_calls s s' = cs"
  by (simp add: new_calls_def)

lemma construct_texture_eq:
  "construct_texture env c s =
     (case texture_failure env (calls s @ [c]) of
        Some err \<Rightarrow> ((COGL_INVALID_HANDLE, Some err), s\<lparr>calls := calls s @ [c]\<rparr>)
      | None \<Rightarrow> ((Suc (length (objects s)), None),
                  s\<lparr>calls := calls s @ [c], objects := objects s @ [Texture c]\<rparr>))"
  by (simp add: construct_texture_def extern_def record_call_def new_object_def Let_def
      split: option.split)

lemma color_texture_eq:
  "meta_create_color_texture_4ub env red green blue alpha flags s =
     construct_texture_no_error env
       (Cogl_texture_new_from_data 1 1 flags COGL_PIXEL_FORMAT_RGBA_8888_PRE
          COGL_PIXEL_FORMAT_ANY 4 (premultiplied_pixel env red green blue alpha)) s"
  by (simp add: meta_create_color_texture_4ub_def premultiplied_pixel_def rgba_bytes_def Let_def)

lemma supports_cached:
  "cogl_context s \<noteq> NULL \<Longrightarrow> hardware_supports_npot_sizes env s = (supports_npot s, s)"
  by (simp add: hardware_supports_npot_sizes_def)

lemma supports_uncached:
  "cogl_context s = NULL \<Longrightarrow>
   hardware_supports_npot_sizes env s =
     (let backend = default_backend env (calls s @ [Clutter_get_default_backend]);
          trace1 = calls s @ [Clutter_get_default_backend, Clutter_backend_get_cogl_context backend];
          context = backend_context env trace1;
          trace2 = trace1 @ [Cogl_has_feature context];
          feature = has_npot_feature env trace2
      in (feature, s\<lparr>cogl_context := context, supports_npot := feature, calls := trace2\<rparr>))"
  by (simp add: hardware_supports_npot_sizes_def extern_def record_call_def Let_def)

lemma clamp_cached:
  "screen_width s \<noteq> 0 \<Longrightarrow>
   clamp_sizes env width height s =
     (if gint_fits (2 * sint (screen_width s)) \<and> gint_fits (2 * sint (screen_height s))
      then Inr ((MIN_gint width (screen_width s * 2), MIN_gint height (screen_height s * 2)), s)
      else Inl Signed_overflow)"
  by (simp add: clamp_sizes_def gint_mul_2)

lemma clamp_uncached:
  "screen_width s = 0 \<Longrightarrow>
   clamp_sizes env width height s =
     (let screen = default_screen env (calls s @ [Gdk_screen_get_default]);
          trace1 = calls s @ [Gdk_screen_get_default, Gdk_screen_get_width screen];
          w = screen_width_of env trace1;
          trace2 = trace1 @ [Gdk_screen_get_height screen];
          h = screen_height_of env trace2
      in if gint_fits (2 * sint w) \<and> gint_fits (2 * sint h)
         then Inr ((MIN_gint width (w * 2), MIN_gint height (h * 2)),
                   s\<lparr>screen_width := w, screen_height := h, calls := trace2\<rparr>)
         else Inl Signed_overflow)"
  by (simp add: clamp_sizes_def gint_mul_2 extern_def record_call_def Let_def)


lemma report_error_eq:
  "report_error prefix error s = s\<lparr>calls := calls s @ error_report_calls prefix error\<rparr>"
  by (simp add: report_error_def error_report_calls_def record_call_def split: option.split)

lemma screen_query_kinds:
  "is_screen_query c \<Longrightarrow>
     \<not> is_texture_constructor c \<and> \<not> is_capability_query c \<and> \<not> is_error_report c
     \<and> c \<noteq> Cogl_material_new"
  by (cases c) simp_all

lemma capability_query_kinds:
  "is_capability_query c \<Longrightarrow>
     \<not> is_texture_constructor c \<and> \<not> is_screen_query c \<and> \<not> is_error_report c
     \<and> c \<noteq> Cogl_material_new"
  by (cases c) simp_all

lemma filter_none: "list_all Q cs \<Longrightarrow> (\<And>c. Q c \<Longrightarrow> \<not> P c) \<Longrightarrow> filter P cs = []"
  by (induction cs) auto

lemma clamp_sizes_frame:
  assumes "clamp_sizes env width height s = Inr (r, s1)"
  shows "texture_material_template s1 = texture_material_template s"
    and "cogl_context s1 = cogl_context s"
    and "supports_npot s1 = supports_npot s"
    and "objects s1 = objects s"
    and "\<exists>cs. calls s1 = calls s @ cs \<and> list_all is_screen_query cs"
    and "screen_width s \<noteq> 0 \<Longrightarrow> s1 = s"
  using assms
  by (cases "screen_width s = 0";
      auto simp: clamp_cached clamp_uncached Let_def split: if_splits)+

lemma supports_frame:
  assumes "hardware_supports_npot_sizes env s = (npot, s2)"
  shows "texture_material_template s2 = texture_material_template s"
    and "screen_width s2 = screen_width s"
    and "screen_height s2 = screen_height s"
    and "objects s2 = objects s"
    and "\<exists>cs. calls s2 = calls s @ cs \<and> list_all is_capability_query cs"
    and "cogl_context s \<noteq> NULL \<Longrightarrow> s2 = s \<and> npot = supports_npot s"
    and "npot = supports_npot s2"
  using assms
  by (cases "cogl_context s = NULL";
      auto simp: supports_cached supports_uncached Let_def)+

lemma construct_texture_frame:
  assumes "construct_texture env c s = ((texture, error), s')"
  shows "texture_material_template s' = texture_material_template s"
    and "cogl_context s' = cogl_context s"
    and "supports_npot s' = supports_npot s"
    and "screen_width s' = screen_width s"
    and "screen_height s' = screen_height s"
    and "calls s' = calls s @ [c]"
    and "error = texture_failure env (calls s @ [c])"
    and "objects s' = objects s @ (if texture = COGL_INVALID_HANDLE then [] else [Texture c])"
    and "texture = COGL_INVALID_HANDLE \<or> texture = Suc (length (objects s))"
  using assms
  by (auto simp: construct_texture_eq COGL_INVALID_HANDLE_def split: option.splits)


lemma from_data_eq:
  assumes "clamp_sizes env width height s = Inr ((w', h'), s1)"
    and "hardware_supports_npot_sizes env s1 = (npot, s2)"
  shows "meta_cogl_texture_new_from_data_wrapper env width height flags format internal_format
           rowstride data s =
         (if npot then
            (let ((texture, error), s3) =
                   construct_texture env
                     (Cogl_texture_2d_new_from_data (cogl_context s2) w' h' format
                        (version_format env COGL_PIXEL_FORMAT_ANY) rowstride data) s2
             in Inr (texture, report_error ''cogl_texture_2d_new_from_data failed: '' error s3))
          else
            Inr (construct_texture_no_error env
                   (Cogl_texture_new_from_data w' h' flags format internal_format
                      rowstride data) s2))"
  using assms by (simp add: meta_cogl_texture_new_from_data_wrapper_def)

lemma from_data_fault:
  "clamp_sizes env width height s = Inl f \<Longrightarrow>
   meta_cogl_texture_new_from_data_wrapper env width height flags format internal_format
     rowstride data s = Inl f"
  by (simp add: meta_cogl_texture_new_from_data_wrapper_def)

lemma with_size_eq:
  assumes "clamp_sizes env width height s = Inr ((w', h'), s1)"
    and "hardware_supports_npot_sizes env s1 = (npot, s2)"
  shows "meta_cogl_texture_new_with_size_wrapper env width height flags internal_format s =
         Inr (construct_texture_no_error env
           (if npot then Cogl_texture_2d_new_with_size (cogl_context s2) w' h'
                           (version_format env CLUTTER_CAIRO_FORMAT_ARGB32)
            else Cogl_texture_new_with_size w' h' flags internal_format) s2)"
  using assms by (simp add: meta_cogl_texture_new_with_size_wrapper_def)

lemma with_size_fault:
  "clamp_sizes env width height s = Inl f \<Longrightarrow>
   meta_cogl_texture_new_with_size_wrapper env width height flags internal_format s = Inl f"
  by (simp add: meta_cogl_texture_new_with_size_wrapper_def)

lemma from_file_eq:
  assumes "hardware_supports_npot_sizes env s = (npot, s2)"
  shows "meta_cogl_texture_new_from_file_wrapper env filename flags internal_format s =
         (let ((texture, error), s3) =
                construct_texture env
                  (if npot then Cogl_texture_2d_new_from_file (cogl_context s2) filename
                                  (version_format env COGL_PIXEL_FORMAT_ANY)
                   else Cogl_texture_new_from_file filename flags internal_format) s2
          in (texture, report_error ''cogl_texture_(2d)_new_from_file failed: '' error s3))"
  using assms by (simp add: meta_cogl_texture_new_from_file_wrapper_def)

lemma error_report_calls_kinds:
  "filter is_texture_constructor (error_report_calls p e) = []"
  "filter is_error_report (error_report_calls p e) = error_report_calls p e"
  "filter is_screen_query (error_report_calls p e) = []"
  "filter is_capability_query (error_report_calls p e) = []"
  by (simp_all add: error_report_calls_def split: option.split)

text \<open>What a texture wrapper leaves behind: the calls of the clamp, of the capability
  query, of the constructor and of the error report, in this order.\<close>

lemma from_data_calls:
  assumes "clamp_sizes env width height s = Inr ((w', h'), s1)"
    and "hardware_supports_npot_sizes env s1 = (npot, s2)"
    and "meta_cogl_texture_new_from_data_wrapper env width height flags format internal_format
           rowstride data s = Inr (texture, s')"
  shows "\<exists>qs ps. list_all is_screen_query qs \<and> list_all is_capability_query ps \<and>
           calls s1 = calls s @ qs \<and> calls s2 = calls s1 @ ps \<and>
           (if npot then
              calls s' = calls s2 @
                Cogl_texture_2d_new_from_data (cogl_context s2) w' h' format
                  (version_format env COGL_PIXEL_FORMAT_ANY) rowstride data
                # error_report_calls ''cogl_texture_2d_new_from_data failed: ''
                    (texture_failure env (calls s2 @
                       [Cogl_texture_2d_new_from_data (cogl_context s2) w' h' format
                          (version_format env COGL_PIXEL_FORMAT_ANY) rowstride data]))
              \<and> texture = fst (fst (construct_texture env
                    (Cogl_texture_2d_new_from_data (cogl_context s2) w' h' format
                       (version_format env COGL_PIXEL_FORMAT_ANY) rowstride data) s2))
            else
              calls s' = calls s2 @
                [Cogl_texture_new_from_data w' h' flags format internal_format rowstride data]
              \<and> texture = fst (fst (construct_texture env
                    (Cogl_texture_new_from_data w' h' flags format internal_format
                       rowstride data) s2)))"
proof -
  from clamp_sizes_frame(5) [OF assms(1)] obtain qs
    where qs: "calls s1 = calls s @ qs" "list_all is_screen_query qs" by blast
  from supports_frame(5) [OF assms(2)] obtain ps
    where ps: "calls s2 = calls s1 @ ps" "list_all is_capability_query ps" by blast
  show ?thesis
    using assms(3) qs ps
    unfolding from_data_eq [OF assms(1,2)]
    by (auto simp: construct_texture_no_error_def construct_texture_eq report_error_eq Let_def
        split: option.splits if_splits prod.splits)
qed

lemma with_size_calls:
  assumes "clamp_sizes env width height s = Inr ((w', h'), s1)"
    and "hardware_supports_npot_sizes env s1 = (npot, s2)"
    and "meta_cogl_texture_new_with_size_wrapper env width height flags internal_format s =
           Inr (texture, s')"
  shows "\<exists>qs ps. list_all is_screen_query qs \<and> list_all is_capability_query ps \<and>
           calls s1 = calls s @ qs \<and> calls s2 = calls s1 @ ps \<and>
           calls s' = calls s2 @
             [if npot then Cogl_texture_2d_new_with_size (cogl_context s2) w' h'
                             (version_format env CLUTTER_CAIRO_FORMAT_ARGB32)
              else Cogl_texture_new_with_size w' h' flags internal_format]
           \<and> texture = fst (fst (construct_texture env
                 (if npot then Cogl_texture_2d_new_with_size (cogl_context s2) w' h'
                                 (version_format env CLUTTER_CAIRO_FORMAT_ARGB32)
                  else Cogl_texture_new_with_size w' h' flags internal_format) s2))"
proof -
  from clamp_sizes_frame(5) [OF assms(1)] obtain qs
    where qs: "calls s1 = calls s @ qs" "list_all is_screen_query qs" by blast
  from supports_frame(5) [OF assms(2)] obtain ps
    where ps: "calls s2 = calls s1 @ ps" "list_all is_capability_query ps" by blast
  show ?thesis
    using assms(3) qs ps
    unfolding with_size_eq [OF assms(1,2)]
    by (auto simp: construct_texture_no_error_def construct_texture_eq Let_def
        split: option.splits if_splits prod.splits)
qed

lemma from_file_calls:
  assumes "hardware_supports_npot_sizes env s = (npot, s2)"
    and "meta_cogl_texture_new_from_file_wrapper env filename flags internal_format s =
           (texture, s')"
  shows "\<exists>ps. list_all is_capability_query ps \<and> calls s2 = calls s @ ps \<and>
           calls s' = calls s2 @
             (if npot then Cogl_texture_2d_new_from_file (cogl_context s2) filename
                             (version_format env COGL_PIXEL_FORMAT_ANY)
              else Cogl_texture_new_from_file filename flags internal_format)
             # error_report_calls ''cogl_texture_(2d)_new_from_file failed: ''
                 (texture_failure env (calls s2 @
                    [if npot then Cogl_texture_2d_new_from_file (cogl_context s2) filename
                                    (version_format env COGL_PIXEL_FORMAT_ANY)
                     else Cogl_texture_new_from_file filename flags internal_format]))
           \<and> texture = fst (fst (construct_texture env
                 (if npot then Cogl_texture_2d_new_from_file (cogl_context s2) filename
                                 (version_format env COGL_PIXEL_FORMAT_ANY)
                  else Cogl_texture_new_from_file filename flags internal_format) s2))"
proof -
  from supports_frame(5) [OF assms(1)] obtain ps
    where ps: "calls s2 = calls s @ ps" "list_all is_capability_query ps" by blast
  show ?thesis
    using assms(2) ps
    unfolding from_file_eq [OF assms(1)]
    by (auto simp: construct_texture_eq report_error_eq Let_def
        split: option.splits if_splits prod.splits)
qed

lemma filter_screen_queries:
  "list_all is_screen_query qs \<Longrightarrow> filter is_texture_constructor qs = []"
  "list_all is_screen_query qs \<Longrightarrow> filter is_error_report qs = []"
  "list_all is_screen_query qs \<Longrightarrow> filter is_capability_query qs = []"
  by (auto intro: filter_none dest: screen_query_kinds)

lemma filter_capability_queries:
  "list_all is_capability_query ps \<Longrightarrow> filter is_texture_constructor ps = []"
  "list_all is_capability_query ps \<Longrightarrow> filter is_error_report ps = []"
  "list_all is_capability_query ps \<Longrightarrow> filter is_screen_query ps = []"
  by (auto intro: filter_none dest: capability_query_kinds)


lemma from_data_returns:
  assumes "clamp_sizes env width height s = Inr ((w', h'), s1)"
    and "hardware_supports_npot_sizes env s1 = (npot, s2)"
  shows "\<exists>texture s'.
           meta_cogl_texture_new_from_data_wrapper env width height flags format
             internal_format rowstride data s = Inr (texture, s')"
  unfolding from_data_eq [OF assms]
  by (cases npot; simp add: Let_def split_beta; metis surj_pair)

lemma with_size_returns:
  assumes "clamp_sizes env width height s = Inr ((w', h'), s1)"
    and "hardware_supports_npot_sizes env s1 = (npot, s2)"
  shows "\<exists>texture s'.
           meta_cogl_texture_new_with_size_wrapper env width height flags internal_format s =
             Inr (texture, s')"
  unfolding with_size_eq [OF assms]
  by (simp; metis surj_pair)


subsection \<open>Materials and the colour texture\<close>

lemma cogl_material_new_eq:
  "cogl_material_new s =
     (Suc (length (objects s)),
      s\<lparr>calls := calls s @ [Cogl_material_new], objects := objects s @ [Material []]\<rparr>)"
  by (simp add: cogl_material_new_def new_object_def record_call_def)

lemma object_at_calls [simp]: "object_at (s\<lparr>calls := cs\<rparr>) h = object_at s h"
  by (simp add: object_at_def)

lemma object_at_statics [simp]:
  "object_at (s\<lparr>texture_material_template := t\<rparr>) h = object_at s h"
  "object_at (s\<lparr>cogl_context := c\<rparr>) h = object_at s h"
  "object_at (s\<lparr>supports_npot := b\<rparr>) h = object_at s h"
  "object_at (s\<lparr>screen_width := w\<rparr>) h = object_at s h"
  "object_at (s\<lparr>screen_height := w\<rparr>) h = object_at s h"
  by (simp_all add: object_at_def)

lemma cogl_material_copy_eq:
  "cogl_material_copy source s =
     (Suc (length (objects s)),
      s\<lparr>calls := calls s @ [Cogl_material_copy source],
        objects := objects s @ [Material (layers_of s source)]\<rparr>)"
  by (simp add: cogl_material_copy_def new_object_def record_call_def layers_of_def Let_def
      split: option.split cogl_object.split)

lemma cogl_material_set_layer_eq:
  "cogl_material_set_layer material i texture s =
     s\<lparr>calls := calls s @ [Cogl_material_set_layer material i texture],
       objects := (case object_at s material of
                     Some (Material layers) \<Rightarrow>
                       (objects s)[material - 1 := Material ((i, texture) # layers)]
                   | _ \<Rightarrow> objects s)\<rparr>"
  by (simp add: cogl_material_set_layer_def record_call_def Let_def
      split: option.split cogl_object.split)

lemma color_texture_frame:
  assumes "meta_create_color_texture_4ub env red green blue alpha flags s = (texture, s')"
  shows "texture_material_template s' = texture_material_template s"
    and "cogl_context s' = cogl_context s"
    and "supports_npot s' = supports_npot s"
    and "screen_width s' = screen_width s"
    and "screen_height s' = screen_height s"
    and "calls s' = calls s @
           [Cogl_texture_new_from_data 1 1 flags COGL_PIXEL_FORMAT_RGBA_8888_PRE
              COGL_PIXEL_FORMAT_ANY 4 (premultiplied_pixel env red green blue alpha)]"
    and "objects s' = objects s @
           (if texture = COGL_INVALID_HANDLE then []
            else [Texture (Cogl_texture_new_from_data 1 1 flags COGL_PIXEL_FORMAT_RGBA_8888_PRE
                    COGL_PIXEL_FORMAT_ANY 4 (premultiplied_pixel env red green blue alpha))])"
    and "texture = COGL_INVALID_HANDLE \<or> texture = Suc (length (objects s))"
  using assms
  by (auto simp: color_texture_eq construct_texture_no_error_def construct_texture_eq
      COGL_INVALID_HANDLE_def split: option.splits)

text \<open>The calls that build the template material, given the handle of the dummy texture
  and of the new material.\<close>

lemma material_calls:
  assumes "meta_create_texture_material env src_texture s = (material, s')"
  shows "\<exists>dummy.
     calls s' = calls s
       @ (if texture_material_template s = COGL_INVALID_HANDLE
          then [white_texture_call env, Cogl_material_new,
                Cogl_material_set_layer (texture_material_template s') 0 dummy,
                Cogl_handle_unref dummy]
          else [])
       @ [Cogl_material_copy (texture_material_template s')]
       @ (if src_texture \<noteq> COGL_INVALID_HANDLE
          then [Cogl_material_set_layer material 0 src_texture] else [])"
  using assms
  by (auto simp: meta_create_texture_material_def color_texture_eq white_texture_call_def
      construct_texture_no_error_def construct_texture_eq cogl_material_new_eq
      cogl_material_copy_eq cogl_material_set_layer_eq record_call_def Let_def
      split: option.splits if_splits prod.splits)

lemma supports_screen_update:
  "hardware_supports_npot_sizes env (s\<lparr>screen_width := a, screen_height := b\<rparr>) =
     (fst (hardware_supports_npot_sizes env s),
      (snd (hardware_supports_npot_sizes env s))\<lparr>screen_width := a, screen_height := b\<rparr>)"
  by (cases "cogl_context s = NULL") (simp_all add: supports_cached supports_uncached Let_def)

lemma construct_texture_screen_update:
  "construct_texture env c (s\<lparr>screen_width := a, screen_height := b\<rparr>) =
     (fst (construct_texture env c s),
      (snd (construct_texture env c s))\<lparr>screen_width := a, screen_height := b\<rparr>)"
  by (simp add: construct_texture_eq split: option.split)

lemma report_error_screen_update:
  "report_error p e (s\<lparr>screen_width := a, screen_height := b\<rparr>) =
     (report_error p e s)\<lparr>screen_width := a, screen_height := b\<rparr>"
  by (simp add: report_error_eq)

lemma from_file_screen_update:
  "meta_cogl_texture_new_from_file_wrapper env filename flags internal_format
     (s\<lparr>screen_width := a, screen_height := b\<rparr>) =
   (fst (meta_cogl_texture_new_from_file_wrapper env filename flags internal_format s),
    (snd (meta_cogl_texture_new_from_file_wrapper env filename flags internal_format s))
      \<lparr>screen_width := a, screen_height := b\<rparr>)"
proof -
  obtain npot sb where h: "hardware_supports_npot_sizes env s = (npot, sb)"
    by (cases "hardware_supports_npot_sizes env s")
  then have h': "hardware_supports_npot_sizes env (s\<lparr>screen_width := a, screen_height := b\<rparr>) =
      (npot, sb\<lparr>screen_width := a, screen_height := b\<rparr>)"
    by (simp add: supports_screen_update)
  show ?thesis
    unfolding from_file_eq [OF h] from_file_eq [OF h']
    by (simp add: construct_texture_screen_update report_error_screen_update Let_def split_beta)
qed

lemma from_file_frame:
  assumes "meta_cogl_texture_new_from_file_wrapper env filename flags internal_format s =
             (texture, s')"
  shows "screen_width s' = screen_width s"
    and "screen_height s' = screen_height s"
    and "texture_material_template s' = texture_material_template s"
    and "filter is_screen_query (new_calls s s') = []"
proof -
  obtain npot sb where h: "hardware_supports_npot_sizes env s = (npot, sb)"
    by (cases "hardware_supports_npot_sizes env s")
  from from_file_calls [OF h assms] obtain ps where
    ps: "list_all is_capability_query ps" "calls sb = calls s @ ps"
    and c: "calls s' = calls sb @
             (if npot then Cogl_texture_2d_new_from_file (cogl_context sb) filename
                             (version_format env COGL_PIXEL_FORMAT_ANY)
              else Cogl_texture_new_from_file filename flags internal_format)
             # error_report_calls ''cogl_texture_(2d)_new_from_file failed: ''
                 (texture_failure env (calls sb @
                    [if npot then Cogl_texture_2d_new_from_file (cogl_context sb) filename
                                    (version_format env COGL_PIXEL_FORMAT_ANY)
                     else Cogl_texture_new_from_file filename flags internal_format]))"
    by blast
  from ps c show "filter is_screen_query (new_calls s s') = []"
    by (auto simp: new_calls_def filter_capability_queries error_report_calls_kinds)
  from assms supports_frame(1,2,3) [OF h]
  show "screen_width s' = screen_width s" "screen_height s' = screen_height s"
    "texture_material_template s' = texture_material_template s"
    unfolding from_file_eq [OF h]
    by (auto simp: construct_texture_eq report_error_eq Let_def
        split: prod.splits option.splits if_splits)
qed


text \<open>What \<open>clamp_sizes\<close> returns, with the screen size it works with: the cached one,
  or on a call with an empty cache the one the screen reports.\<close>

lemma clamp_sizes_result:
  fixes env :: "'c env" and s :: state and screen :: pointer and queries :: "call list"
    and W H :: gint
  defines "screen \<equiv> default_screen env (calls s @ [Gdk_screen_get_default])"
    and "queries \<equiv> [Gdk_screen_get_default, Gdk_screen_get_width screen,
                       Gdk_screen_get_height screen]"
  defines "W \<equiv> (if screen_width s = 0
                   then screen_width_of env (calls s @ [Gdk_screen_get_default,
                                                        Gdk_screen_get_width screen])
                   else screen_width s)"
    and "H \<equiv> (if screen_width s = 0 then screen_height_of env (calls s @ queries)
                 else screen_height s)"
  shows "clamp_sizes env width height s =
     (if gint_fits (2 * sint W) \<and> gint_fits (2 * sint H)
      then Inr ((MIN_gint width (W * 2), MIN_gint height (H * 2)),
                if screen_width s = 0
                then s\<lparr>screen_width := W, screen_height := H, calls := calls s @ queries\<rparr>
                else s)
      else Inl Signed_overflow)"
  unfolding W_def H_def queries_def screen_def
  by (cases "screen_width s = 0") (simp_all add: clamp_cached clamp_uncached Let_def)

lemma wrappers_pass_clamp_result:
  "(clamp_sizes env width height s = Inr ((w', h'), sa) \<longrightarrow>
      (\<forall>texture s'.
         meta_cogl_texture_new_from_data_wrapper env width height flags format internal_format
           rowstride data s = Inr (texture, s') \<longrightarrow>
         map size_args (filter is_texture_constructor (new_calls s s')) = [Some (w', h')]
         \<and> screen_width s' = screen_width sa \<and> screen_height s' = screen_height sa)
      \<and> (\<forall>texture s'.
         meta_cogl_texture_new_with_size_wrapper env width height flags internal_format s =
           Inr (texture, s') \<longrightarrow>
         map size_args (filter is_texture_constructor (new_calls s s')) = [Some (w', h')]
         \<and> screen_width s' = screen_width sa \<and> screen_height s' = screen_height sa))
   \<and> (clamp_sizes env width height s = Inl f \<longrightarrow>
         meta_cogl_texture_new_from_data_wrapper env width height flags format internal_format
           rowstride data s = Inl f
         \<and> meta_cogl_texture_new_with_size_wrapper env width height flags internal_format s =
             Inl f)
   \<and> (meta_cogl_texture_new_from_file_wrapper env filename flags internal_format s =
         (file_texture, file_s) \<longrightarrow>
         screen_width file_s = screen_width s \<and> screen_height file_s = screen_height s
         \<and> filter is_screen_query (new_calls s file_s) = []
         \<and> meta_cogl_texture_new_from_file_wrapper env filename flags internal_format
             (s\<lparr>screen_width := a, screen_height := b\<rparr>) =
           (file_texture, file_s\<lparr>screen_width := a, screen_height := b\<rparr>))"
proof (intro conjI impI allI)
  fix texture s'
  assume c: "clamp_sizes env width height s = Inr ((w', h'), sa)"
    and r: "meta_cogl_texture_new_from_data_wrapper env width height flags format
              internal_format rowstride data s = Inr (texture, s')"
  obtain npot sb where h: "hardware_supports_npot_sizes env sa = (npot, sb)"
    by (cases "hardware_supports_npot_sizes env sa")
  from from_data_calls [OF c h r] obtain qs ps where
    "list_all is_screen_query qs" "list_all is_capability_query ps"
    "calls sa = calls s @ qs" "calls sb = calls sa @ ps"
    "(if npot then
              calls s' = calls sb @
                Cogl_texture_2d_new_from_data (cogl_context sb) w' h' format
                  (version_format env COGL_PIXEL_FORMAT_ANY) rowstride data
                # error_report_calls ''cogl_texture_2d_new_from_data failed: ''
                    (texture_failure env (calls sb @
                       [Cogl_texture_2d_new_from_data (cogl_context sb) w' h' format
                          (version_format env COGL_PIXEL_FORMAT_ANY) rowstride data]))
            else
              calls s' = calls sb @
                [Cogl_texture_new_from_data w' h' flags format internal_format rowstride data])"
    by (auto split: if_splits)
  then show "map size_args (filter is_texture_constructor (new_calls s s')) = [Some (w', h')]"
    by (auto simp: new_calls_def filter_screen_queries filter_capability_queries
        error_report_calls_kinds split: if_splits)
  from r supports_frame(2,3) [OF h]
  show "screen_width s' = screen_width sa" "screen_height s' = screen_height sa"
    unfolding from_data_eq [OF c h]
    by (auto simp: construct_texture_no_error_def construct_texture_eq report_error_eq Let_def
        split: prod.splits option.splits if_splits)
next
  fix texture s'
  assume c: "clamp_sizes env width height s = Inr ((w', h'), sa)"
    and r: "meta_cogl_texture_new_with_size_wrapper env width height flags internal_format s =
              Inr (texture, s')"
  obtain npot sb where h: "hardware_supports_npot_sizes env sa = (npot, sb)"
    by (cases "hardware_supports_npot_sizes env sa")
  from with_size_calls [OF c h r] obtain qs ps where
    "list_all is_screen_query qs" "list_all is_capability_query ps"
    "calls sa = calls s @ qs" "calls sb = calls sa @ ps"
    "calls s' = calls sb @
             [if npot then Cogl_texture_2d_new_with_size (cogl_context sb) w' h'
                             (version_format env CLUTTER_CAIRO_FORMAT_ARGB32)
              else Cogl_texture_new_with_size w' h' flags internal_format]"
    by blast
  then show "map size_args (filter is_texture_constructor (new_calls s s')) = [Some (w', h')]"
    by (auto simp: new_calls_def filter_screen_queries filter_capability_queries
        split: if_splits)
  from r supports_frame(2,3) [OF h]
  show "screen_width s' = screen_width sa" "screen_height s' = screen_height sa"
    unfolding with_size_eq [OF c h]
    by (auto simp: construct_texture_no_error_def construct_texture_eq Let_def
        split: prod.splits option.splits if_splits)
next
  assume "clamp_sizes env width height s = Inl f"
  then show "meta_cogl_texture_new_from_data_wrapper env width height flags format
      internal_format rowstride data s = Inl f"
    "meta_cogl_texture_new_with_size_wrapper env width height flags internal_format s = Inl f"
    by (simp_all add: from_data_fault with_size_fault)
next
  assume r: "meta_cogl_texture_new_from_file_wrapper env filename flags internal_format s =
         (file_texture, file_s)"
  from from_file_frame [OF r]
  show "screen_width file_s = screen_width s" "screen_height file_s = screen_height s"
    "filter is_screen_query (new_calls s file_s) = []"
    by simp_all
  from r show "meta_cogl_texture_new_from_file_wrapper env filename flags internal_format
             (s\<lparr>screen_width := a, screen_height := b\<rparr>) =
           (file_texture, file_s\<lparr>screen_width := a, screen_height := b\<rparr>)"
    by (simp add: from_file_screen_update)
qed





lemma layers_of_last:
  "objects s = xs @ [Material layers] \<Longrightarrow> layers_of s (Suc (length xs)) = layers"
  by (simp add: layers_of_def object_at_def)

lemma set_layer_last:
  "objects s = xs @ [Material layers] \<Longrightarrow>
   cogl_material_set_layer (Suc (length xs)) i texture s =
     s\<lparr>calls := calls s @ [Cogl_material_set_layer (Suc (length xs)) i texture],
       objects := xs @ [Material ((i, texture) # layers)]\<rparr>"
  by (simp add: cogl_material_set_layer_eq object_at_def)

text \<open>The first call of \<open>meta_create_texture_material\<close> builds the template.\<close>

lemma material_first:
  assumes "texture_material_template s = COGL_INVALID_HANDLE"
    and "meta_create_color_texture_4ub env 0xff 0xff 0xff 0xff COGL_TEXTURE_NONE s = (dummy, sa)"
  shows "meta_create_texture_material env src_texture s =
     (Suc (Suc (length (objects sa))),
      sa\<lparr>texture_material_template := Suc (length (objects sa)),
         calls := calls sa @
           [Cogl_material_new,
            Cogl_material_set_layer (Suc (length (objects sa))) 0 dummy,
            Cogl_handle_unref dummy,
            Cogl_material_copy (Suc (length (objects sa)))]
           @ (if src_texture \<noteq> COGL_INVALID_HANDLE
              then [Cogl_material_set_layer (Suc (Suc (length (objects sa)))) 0 src_texture]
              else []),
         objects := objects sa @
           [Material [(0, dummy)],
            Material ((if src_texture \<noteq> COGL_INVALID_HANDLE then [(0, src_texture)] else [])
                      @ [(0, dummy)])]\<rparr>)"
proof -
  let ?t = "Suc (length (objects sa))"
  define sc where "sc = sa\<lparr>calls := calls sa @ [Cogl_material_new],
                            objects := objects sa @ [Material []],
                            texture_material_template := ?t\<rparr>"
  define se where "se = sc\<lparr>calls := calls sa @ [Cogl_material_new,
                              Cogl_material_set_layer ?t 0 dummy, Cogl_handle_unref dummy],
                            objects := objects sa @ [Material [(0, dummy)]]\<rparr>"
  define sf where "sf = se\<lparr>calls := calls se @ [Cogl_material_copy ?t],
                            objects := objects se @ [Material [(0, dummy)]]\<rparr>"
  have "objects sc = objects sa @ [Material []]" by (simp add: sc_def)
  from set_layer_last [OF this, of 0 dummy]
  have e: "record_call (Cogl_handle_unref dummy) (cogl_material_set_layer ?t 0 dummy sc) = se"
    by (simp add: se_def sc_def record_call_def)
  have "objects se = objects sa @ [Material [(0, dummy)]]" by (simp add: se_def)
  from layers_of_last [OF this]
  have f: "cogl_material_copy ?t se = (Suc ?t, sf)"
    by (simp add: cogl_material_copy_eq sf_def se_def)
  have "objects sf = (objects sa @ [Material [(0, dummy)]]) @ [Material [(0, dummy)]]"
    by (simp add: sf_def se_def)
  from set_layer_last [OF this, of 0 src_texture]
  have g: "cogl_material_set_layer (Suc ?t) 0 src_texture sf =
             sf\<lparr>calls := calls sf @ [Cogl_material_set_layer (Suc ?t) 0 src_texture],
                objects := objects sa @ [Material [(0, dummy)],
                                         Material [(0, src_texture), (0, dummy)]]\<rparr>"
    by simp
  have t: "texture_material_template se = ?t" by (simp add: se_def sc_def)
  have "meta_create_texture_material env src_texture s =
          (Suc ?t, if src_texture \<noteq> COGL_INVALID_HANDLE
                   then cogl_material_set_layer (Suc ?t) 0 src_texture sf else sf)"
    unfolding meta_create_texture_material_def
    by (simp add: assms cogl_material_new_eq Let_def sc_def [symmetric] e t f)
  then show ?thesis
    by (simp add: g) (simp add: sf_def se_def sc_def)
qed

text \<open>Every later call copies it.\<close>

lemma material_later:
  assumes "texture_material_template s \<noteq> COGL_INVALID_HANDLE"
  shows "meta_create_texture_material env src_texture s =
     (Suc (length (objects s)),
      s\<lparr>calls := calls s @
           Cogl_material_copy (texture_material_template s)
           # (if src_texture \<noteq> COGL_INVALID_HANDLE
              then [Cogl_material_set_layer (Suc (length (objects s))) 0 src_texture]
              else []),
        objects := objects s @
           [Material ((if src_texture \<noteq> COGL_INVALID_HANDLE then [(0, src_texture)] else [])
                      @ layers_of s (texture_material_template s))]\<rparr>)"
proof -
  let ?t = "texture_material_template s"
  define sf where "sf = s\<lparr>calls := calls s @ [Cogl_material_copy ?t],
                           objects := objects s @ [Material (layers_of s ?t)]\<rparr>"
  have f: "cogl_material_copy ?t s = (Suc (length (objects s)), sf)"
    by (simp add: cogl_material_copy_eq sf_def)
  have "objects sf = objects s @ [Material (layers_of s ?t)]" by (simp add: sf_def)
  from set_layer_last [OF this, of 0 src_texture]
  have g: "cogl_material_set_layer (Suc (length (objects s))) 0 src_texture sf =
             sf\<lparr>calls := calls sf @ [Cogl_material_set_layer (Suc (length (objects s))) 0 src_texture],
                objects := objects s @ [Material ((0, src_texture) # layers_of s ?t)]\<rparr>"
    by simp
  have "meta_create_texture_material env src_texture s =
          (Suc (length (objects s)),
           if src_texture \<noteq> COGL_INVALID_HANDLE
           then cogl_material_set_layer (Suc (length (objects s))) 0 src_texture sf else sf)"
    unfolding meta_create_texture_material_def
    by (simp add: assms f Let_def)
  then show ?thesis
    by (simp add: g) (simp add: sf_def)
qed

subsection \<open>The caches across calls\<close>

lemma caches_kept_refl: "caches_kept s s"
  by (simp add: caches_kept_def)

lemma caches_kept_trans:
  assumes "caches_kept s sa" and "caches_kept sa sb"
  shows "caches_kept s sb"
proof -
  from assms(1) obtain new1 where 1: "calls sa = calls s @ new1"
    "cogl_context s \<noteq> NULL \<longrightarrow>
       cogl_context sa = cogl_context s \<and> supports_npot sa = supports_npot s
       \<and> filter is_capability_query new1 = []"
    "screen_width s \<noteq> 0 \<longrightarrow>
       screen_width sa = screen_width s \<and> screen_height sa = screen_height s
       \<and> filter is_screen_query new1 = []"
    unfolding caches_kept_def by blast
  from assms(2) obtain new2 where 2: "calls sb = calls sa @ new2"
    "cogl_context sa \<noteq> NULL \<longrightarrow>
       cogl_context sb = cogl_context sa \<and> supports_npot sb = supports_npot sa
       \<and> filter is_capability_query new2 = []"
    "screen_width sa \<noteq> 0 \<longrightarrow>
       screen_width sb = screen_width sa \<and> screen_height sb = screen_height sa
       \<and> filter is_screen_query new2 = []"
    unfolding caches_kept_def by blast
  have "calls sb = calls s @ (new1 @ new2)" using 1(1) 2(1) by simp
  moreover have "cogl_context s \<noteq> NULL \<longrightarrow>
       cogl_context sb = cogl_context s \<and> supports_npot sb = supports_npot s
       \<and> filter is_capability_query (new1 @ new2) = []"
    using 1(2) 2(2) by simp
  moreover have "screen_width s \<noteq> 0 \<longrightarrow>
       screen_width sb = screen_width s \<and> screen_height sb = screen_height s
       \<and> filter is_screen_query (new1 @ new2) = []"
    using 1(3) 2(3) by simp
  ultimately show ?thesis unfolding caches_kept_def by blast
qed

lemma caches_kept_calls:
  assumes "calls s' = calls s @ new"
    and "filter is_capability_query new = []" and "filter is_screen_query new = []"
    and "cogl_context s' = cogl_context s" and "supports_npot s' = supports_npot s"
    and "screen_width s' = screen_width s" and "screen_height s' = screen_height s"
  shows "caches_kept s s'"
  unfolding caches_kept_def using assms by blast

lemma caches_kept_construct:
  assumes "construct_texture env c s = (r, s')" and "is_texture_constructor c"
  shows "caches_kept s s'"
proof -
  obtain texture error where r: "r = (texture, error)" by (cases r)
  have "\<not> is_capability_query c" "\<not> is_screen_query c"
    using assms(2) by (cases c; simp)+
  with construct_texture_frame(2-6) [OF assms(1) [unfolded r]]
  show ?thesis by (intro caches_kept_calls [where new = "[c]"]) simp_all
qed

lemma caches_kept_report: "caches_kept s (report_error p e s)"
  by (rule caches_kept_calls [where new = "error_report_calls p e"])
     (simp_all add: report_error_eq error_report_calls_kinds)

lemma caches_kept_clamp:
  assumes "clamp_sizes env width height s = Inr (r, s')"
  shows "caches_kept s s'"
proof -
  from clamp_sizes_frame(5) [OF assms] obtain qs
    where qs: "calls s' = calls s @ qs" "list_all is_screen_query qs" by blast
  show ?thesis
    unfolding caches_kept_def
    using qs clamp_sizes_frame(2,3,6) [OF assms]
    by (intro exI [of _ qs]) (auto simp: filter_screen_queries)
qed

lemma caches_kept_supports:
  assumes "hardware_supports_npot_sizes env s = (npot, s')"
  shows "caches_kept s s'"
proof -
  from supports_frame(5) [OF assms] obtain ps
    where ps: "calls s' = calls s @ ps" "list_all is_capability_query ps" by blast
  show ?thesis
    unfolding caches_kept_def
    using ps supports_frame(2,3,6) [OF assms]
    by (intro exI [of _ ps]) (auto simp: filter_capability_queries)
qed

lemma caches_kept_color:
  assumes "meta_create_color_texture_4ub env red green blue alpha flags s = (texture, s')"
  shows "caches_kept s s'"
  using color_texture_frame(2-6) [OF assms]
  by (intro caches_kept_calls [where new =
        "[Cogl_texture_new_from_data 1 1 flags COGL_PIXEL_FORMAT_RGBA_8888_PRE
            COGL_PIXEL_FORMAT_ANY 4 (premultiplied_pixel env red green blue alpha)]"])
     simp_all

lemma caches_kept_material:
  assumes "meta_create_texture_material env src_texture s = (material, s')"
  shows "caches_kept s s'"
proof (cases "texture_material_template s = COGL_INVALID_HANDLE")
  case True
  obtain dummy sa where d:
    "meta_create_color_texture_4ub env 0xff 0xff 0xff 0xff COGL_TEXTURE_NONE s = (dummy, sa)"
    by (cases "meta_create_color_texture_4ub env 0xff 0xff 0xff 0xff COGL_TEXTURE_NONE s")
  have "caches_kept sa s'"
    using assms unfolding material_first [OF True d]
    by (intro caches_kept_calls [where new =
          "[Cogl_material_new,
            Cogl_material_set_layer (Suc (length (objects sa))) 0 dummy,
            Cogl_handle_unref dummy,
            Cogl_material_copy (Suc (length (objects sa)))]
           @ (if src_texture \<noteq> COGL_INVALID_HANDLE
              then [Cogl_material_set_layer (Suc (Suc (length (objects sa)))) 0 src_texture]
              else [])"]) auto
  with caches_kept_color [OF d] show ?thesis by (rule caches_kept_trans)
next
  case False
  show ?thesis
    using assms unfolding material_later [OF False]
    by (intro caches_kept_calls [where new =
          "Cogl_material_copy (texture_material_template s)
           # (if src_texture \<noteq> COGL_INVALID_HANDLE
              then [Cogl_material_set_layer (Suc (length (objects s))) 0 src_texture]
              else [])"]) auto
qed

lemma caches_kept_from_data:
  assumes "meta_cogl_texture_new_from_data_wrapper env width height flags format
             internal_format rowstride data s = Inr (texture, s')"
  shows "caches_kept s s'"
proof (cases "clamp_sizes env width height s")
  case (Inl f)
  with assms show ?thesis by (simp add: from_data_fault)
next
  case (Inr r)
  then obtain w' h' sa where c: "clamp_sizes env width height s = Inr ((w', h'), sa)"
    by (cases r) auto
  obtain npot sb where h: "hardware_supports_npot_sizes env sa = (npot, sb)"
    by (cases "hardware_supports_npot_sizes env sa")
  have "caches_kept sb s'"
  proof (cases npot)
    case True
    obtain r3 s3 where k: "construct_texture env
        (Cogl_texture_2d_new_from_data (cogl_context sb) w' h' format
           (version_format env COGL_PIXEL_FORMAT_ANY) rowstride data) sb = (r3, s3)"
      by (cases "construct_texture env
        (Cogl_texture_2d_new_from_data (cogl_context sb) w' h' format
           (version_format env COGL_PIXEL_FORMAT_ANY) rowstride data) sb")
    from assms True k have "s' = report_error ''cogl_texture_2d_new_from_data failed: '' (snd r3) s3"
      unfolding from_data_eq [OF c h] by (cases r3) simp
    with caches_kept_construct [OF k] caches_kept_report show ?thesis
      by (auto intro: caches_kept_trans)
  next
    case False
    obtain r3 s3 where k: "construct_texture env
        (Cogl_texture_new_from_data w' h' flags format internal_format rowstride data) sb =
        (r3, s3)"
      by (cases "construct_texture env
        (Cogl_texture_new_from_data w' h' flags format internal_format rowstride data) sb")
    from assms False k have "s' = s3"
      unfolding from_data_eq [OF c h] by (cases r3) (simp add: construct_texture_no_error_def)
    with caches_kept_construct [OF k] show ?thesis by simp
  qed
  with caches_kept_clamp [OF c] caches_kept_supports [OF h] show ?thesis
    by (blast intro: caches_kept_trans)
qed

lemma caches_kept_with_size:
  assumes "meta_cogl_texture_new_with_size_wrapper env width height flags internal_format s =
             Inr (texture, s')"
  shows "caches_kept s s'"
proof (cases "clamp_sizes env width height s")
  case (Inl f)
  with assms show ?thesis by (simp add: with_size_fault)
next
  case (Inr r)
  then obtain w' h' sa where c: "clamp_sizes env width height s = Inr ((w', h'), sa)"
    by (cases r) auto
  obtain npot sb where h: "hardware_supports_npot_sizes env sa = (npot, sb)"
    by (cases "hardware_supports_npot_sizes env sa")
  let ?c = "if npot then Cogl_texture_2d_new_with_size (cogl_context sb) w' h'
                           (version_format env CLUTTER_CAIRO_FORMAT_ARGB32)
            else Cogl_texture_new_with_size w' h' flags internal_format"
  obtain r3 s3 where k: "construct_texture env ?c sb = (r3, s3)"
    by (cases "construct_texture env ?c sb")
  have tc: "is_texture_constructor ?c" by simp
  from assms k have "s' = s3"
    unfolding with_size_eq [OF c h] by (cases r3) (simp add: construct_texture_no_error_def)
  with caches_kept_construct [OF k tc] have "caches_kept sb s'" by simp
  with caches_kept_clamp [OF c] caches_kept_supports [OF h] show ?thesis
    by (blast intro: caches_kept_trans)
qed

lemma caches_kept_from_file:
  assumes "meta_cogl_texture_new_from_file_wrapper env filename flags internal_format s =
             (texture, s')"
  shows "caches_kept s s'"
proof -
  obtain npot sb where h: "hardware_supports_npot_sizes env s = (npot, sb)"
    by (cases "hardware_supports_npot_sizes env s")
  let ?c = "if npot then Cogl_texture_2d_new_from_file (cogl_context sb) filename
                           (version_format env COGL_PIXEL_FORMAT_ANY)
            else Cogl_texture_new_from_file filename flags internal_format"
  obtain r3 s3 where k: "construct_texture env ?c sb = (r3, s3)"
    by (cases "construct_texture env ?c sb")
  have tc: "is_texture_constructor ?c" by simp
  from assms k have "s' = report_error ''cogl_texture_(2d)_new_from_file failed: '' (snd r3) s3"
    unfolding from_file_eq [OF h] by (cases r3) simp
  with caches_kept_construct [OF k tc] caches_kept_report have "caches_kept sb s'"
    by (auto intro: caches_kept_trans)
  with caches_kept_supports [OF h] show ?thesis
    by (blast intro: caches_kept_trans)
qed

lemma caches_kept_invoke:
  assumes "invoke env c s = Inr (r, s')"
  shows "caches_kept s s'"
proof (cases c)
  case (Create_color_texture red green blue alpha flags)
  with assms show ?thesis
    by (auto simp: Let_def split: prod.splits intro: caches_kept_color)
next
  case (Create_texture_material src)
  with assms show ?thesis
    by (auto simp: Let_def split: prod.splits intro: caches_kept_material)
next
  case Supports_npot_sizes
  with assms show ?thesis
    by (auto simp: Let_def split: prod.splits intro: caches_kept_supports)
next
  case (Clamp_sizes w h)
  with assms show ?thesis
    by (auto split: sum.splits prod.splits intro: caches_kept_clamp)
next
  case (New_from_data w h fl f i rs d)
  with assms show ?thesis
    by (auto split: sum.splits prod.splits intro: caches_kept_from_data)
next
  case (New_from_file n fl i)
  with assms show ?thesis
    by (auto simp: Let_def split: prod.splits intro: caches_kept_from_file)
next
  case (New_with_size w h fl i)
  with assms show ?thesis
    by (auto split: sum.splits prod.splits intro: caches_kept_with_size)
qed

lemma run_Cons:
  "run env (c # cs) s = Inr (rs, s') \<longleftrightarrow>
     (\<exists>r sa rs'. invoke env c s = Inr (r, sa) \<and> run env cs sa = Inr (rs', s') \<and> rs = r # rs')"
  by (auto split: sum.splits prod.splits)

lemma caches_kept_run:
  "run env cs s = Inr (rs, s') \<Longrightarrow> caches_kept s s'"
proof (induction cs arbitrary: s rs)
  case Nil
  then show ?case by (simp add: caches_kept_refl)
next
  case (Cons c cs)
  from Cons.prems obtain r sa rs' where
    "invoke env c s = Inr (r, sa)" "run env cs sa = Inr (rs', s')"
    unfolding run_Cons by blast
  with Cons.IH caches_kept_invoke show ?case
    by (blast intro: caches_kept_trans)
qed

text \<open>With a filled cache, a query returns what the cache holds.\<close>

lemma invoke_cached_results:
  assumes "invoke env c s = Inr (r, sa)"
  shows "cogl_context s \<noteq> NULL \<Longrightarrow> c = Supports_npot_sizes \<Longrightarrow> r = Flag (supports_npot s)"
    and "screen_width s \<noteq> 0 \<Longrightarrow> c = Clamp_sizes w h \<Longrightarrow>
           r = Sizes (MIN_gint w (screen_width s * 2)) (MIN_gint h (screen_height s * 2))"
  using assms
  by (auto simp: supports_cached clamp_cached split: if_splits)

lemma run_cached_results:
  assumes "run env cs s = Inr (rs, s')"
  shows "cogl_context s \<noteq> NULL \<Longrightarrow>
           \<forall>(c, r) \<in> set (zip cs rs). c = Supports_npot_sizes \<longrightarrow> r = Flag (supports_npot s)"
    and "screen_width s \<noteq> 0 \<Longrightarrow>
           \<forall>(c, r) \<in> set (zip cs rs). \<forall>w h. c = Clamp_sizes w h \<longrightarrow>
              r = Sizes (MIN_gint w (screen_width s * 2)) (MIN_gint h (screen_height s * 2))"
  using assms
proof (induction cs arbitrary: s rs)
  case Nil
  {
    case 1 then show ?case by simp
  next
    case 2 then show ?case by simp
  }
next
  case (Cons c cs)
  {
    case 1
    from 1(2) obtain r sa rs' where
      i: "invoke env c s = Inr (r, sa)" and r: "run env cs sa = Inr (rs', s')"
      and rs: "rs = r # rs'"
      unfolding run_Cons by blast
    from caches_kept_invoke [OF i] 1(1)
    have k: "cogl_context sa \<noteq> NULL" "supports_npot sa = supports_npot s"
      by (auto simp: caches_kept_def)
    from Cons.IH(1) [OF k(1) r] k(2) invoke_cached_results(1) [OF i 1(1)]
    show ?case by (auto simp: rs)
  next
    case 2
    from 2(2) obtain r sa rs' where
      i: "invoke env c s = Inr (r, sa)" and r: "run env cs sa = Inr (rs', s')"
      and rs: "rs = r # rs'"
      unfolding run_Cons by blast
    from caches_kept_invoke [OF i] 2(1)
    have k: "screen_width sa \<noteq> 0" "screen_width sa = screen_width s"
      "screen_height sa = screen_height s"
      by (auto simp: caches_kept_def)
    from Cons.IH(2) [OF k(1) r] k(2,3) invoke_cached_results(2) [OF i 2(1)]
    show ?case by (auto simp: rs)
  }
qed

subsection \<open>The store and the template material across calls\<close>


























subsection \<open>Runs on the test double\<close>

lemma cached_state_fields [simp]:
  "texture_material_template (cached_state b) = 0"
  "cogl_context (cached_state b) = 7"
  "supports_npot (cached_state b) = b"
  "screen_width (cached_state b) = 1920"
  "screen_height (cached_state b) = 1080"
  "calls (cached_state b) = []"
  "objects (cached_state b) = []"
  by (simp_all add: cached_state_def screen_1920_state_def initial_state_def
      COGL_INVALID_HANDLE_def)

lemma test_env_fields [simp]:
  "cogl_pre_1_18 (test_env n f w h) = False"
  "default_backend (test_env n f w h) cs = 5"
  "backend_context (test_env n f w h) cs = 7"
  "has_npot_feature (test_env n f w h) cs = n"
  "default_screen (test_env n f w h) cs = 9"
  "screen_width_of (test_env n f w h) cs = w"
  "screen_height_of (test_env n f w h) cs = h"
  "texture_failure (test_env n f w h) cs = f"
  by (simp_all add: test_env_def)

lemma clamp_cached_state:
  "clamp_sizes env 10000 10000 (cached_state b) = Inr ((3840, 2160), cached_state b)"
  "clamp_sizes env 800 600 (cached_state b) = Inr ((800, 600), cached_state b)"
  by (simp_all add: clamp_cached gint_fits_def MIN_gint_def word_sless_alt)

lemma supports_cached_state:
  "hardware_supports_npot_sizes env (cached_state b) = (b, cached_state b)"
  by (simp add: supports_cached NULL_def)


lemma MIN_gint_0:
  "0 \<le> sint a \<Longrightarrow> MIN_gint a 0 = 0"
  "sint a < 0 \<Longrightarrow> MIN_gint a 0 = a"
  by (auto simp: MIN_gint_def word_sless_alt intro: gint_eq_sint)


lemma test_env_pixel:
  "premultiplied_pixel (test_env n f w h) 255 0 0 255 = [255, 0, 0, 255]"
  "premultiplied_pixel (test_env n f w h) 255 255 255 255 = [255, 255, 255, 255]"
  by (simp_all add: premultiplied_pixel_def rgba_bytes_def test_env_def scale_byte_def)

lemma color_texture_red:
  "meta_create_color_texture_4ub (test_env True None 1920 1080) 255 0 0 255 COGL_TEXTURE_NONE
     initial_state =
   (1, initial_state
         \<lparr>calls := [Cogl_texture_new_from_data 1 1 COGL_TEXTURE_NONE
                      COGL_PIXEL_FORMAT_RGBA_8888_PRE COGL_PIXEL_FORMAT_ANY 4 [255, 0, 0, 255]],
          objects := [Texture (Cogl_texture_new_from_data 1 1 COGL_TEXTURE_NONE
                      COGL_PIXEL_FORMAT_RGBA_8888_PRE COGL_PIXEL_FORMAT_ANY 4 [255, 0, 0, 255])]\<rparr>)"
  by (simp add: color_texture_eq construct_texture_no_error_def construct_texture_eq
      test_env_pixel initial_state_def)


lemma late_screen_env_fields [simp]:
  "default_screen late_screen_env cs = 9"
  "screen_width_of late_screen_env cs = (if length cs \<le> 3 then 0 else 1920)"
  "screen_height_of late_screen_env cs = (if length cs \<le> 3 then 0 else 1080)"
  by (simp_all add: late_screen_env_def test_env_def)


lemma run_changed_answers:
  "run (test_env False None 800 600)
     [Supports_npot_sizes, Clamp_sizes 10000 10000,
      New_with_size 10000 10000 COGL_TEXTURE_NONE COGL_PIXEL_FORMAT_ANY,
      Supports_npot_sizes, Clamp_sizes 800 600] (cached_state True) =
   Inr ([Flag True, Sizes 3840 2160, Handle 1, Flag True, Sizes 800 600],
        (cached_state True)
          \<lparr>calls := [Cogl_texture_2d_new_with_size 7 3840 2160 None],
           objects := [Texture (Cogl_texture_2d_new_with_size 7 3840 2160 None)]\<rparr>)"
  by (simp add: supports_cached clamp_cached NULL_def gint_fits_def MIN_gint_def word_sless_alt
      meta_cogl_texture_new_with_size_wrapper_def construct_texture_no_error_def
      construct_texture_eq version_format_def)





subsection \<open>Size clamping\<close>



subsection \<open>Dispatch on the capability\<close>

text \<open>
  Claim C1, as amended. Each of the three texture wrappers asks
  \<open>hardware_supports_npot_sizes\<close> once and then calls exactly one texture constructor:
  the newer 2D constructor when the answer is true, the legacy constructor otherwise. It
  returns the handle which that constructor produced. The arguments differ between the
  wrappers. Only the from-data constructors are given the caller's pixel format; the
  from-file and with-size constructors take none. The legacy constructors get the
  caller's flags and internal format; the newer ones get neither, and one fixed format
  argument on Cogl before 1.18.
\<close>

theorem texture_dispatch:
  fixes env :: "'c env" and sb tb :: state and w' h' rowstride :: gint
    and format internal_format :: CoglPixelFormat and flags :: CoglTextureFlags
    and data :: "guint8 list" and filename :: string
    and newer_data legacy_data newer_file legacy_file newer_size legacy_size :: call
  defines "newer_data \<equiv>
      Cogl_texture_2d_new_from_data (cogl_context sb) w' h' format
        (version_format env COGL_PIXEL_FORMAT_ANY) rowstride data"
    and "legacy_data \<equiv>
      Cogl_texture_new_from_data w' h' flags format internal_format rowstride data"
    and "newer_file \<equiv>
      Cogl_texture_2d_new_from_file (cogl_context tb) filename
        (version_format env COGL_PIXEL_FORMAT_ANY)"
    and "legacy_file \<equiv> Cogl_texture_new_from_file filename flags internal_format"
    and "newer_size \<equiv>
      Cogl_texture_2d_new_with_size (cogl_context sb) w' h'
        (version_format env CLUTTER_CAIRO_FORMAT_ARGB32)"
    and "legacy_size \<equiv> Cogl_texture_new_with_size w' h' flags internal_format"
  shows "(clamp_sizes env width height s = Inr ((w', h'), sa) \<longrightarrow>
          hardware_supports_npot_sizes env sa = (npot, sb) \<longrightarrow>
            (\<exists>texture s'.
               meta_cogl_texture_new_from_data_wrapper env width height flags format
                 internal_format rowstride data s = Inr (texture, s')
               \<and> filter is_texture_constructor (new_calls s s') =
                   [if npot then newer_data else legacy_data]
               \<and> texture =
                   fst (fst (construct_texture env (if npot then newer_data else legacy_data) sb)))
            \<and> (\<exists>texture s'.
               meta_cogl_texture_new_with_size_wrapper env width height flags internal_format s =
                 Inr (texture, s')
               \<and> filter is_texture_constructor (new_calls s s') =
                   [if npot then newer_size else legacy_size]
               \<and> texture =
                   fst (fst (construct_texture env (if npot then newer_size else legacy_size) sb))))
       \<and> (hardware_supports_npot_sizes env s = (npot_file, tb) \<longrightarrow>
            (\<exists>texture s'.
               meta_cogl_texture_new_from_file_wrapper env filename flags internal_format s =
                 (texture, s')
               \<and> filter is_texture_constructor (new_calls s s') =
                   [if npot_file then newer_file else legacy_file]
               \<and> texture =
                   fst (fst (construct_texture env
                     (if npot_file then newer_file else legacy_file) tb))))"
proof (intro conjI impI)
  assume c: "clamp_sizes env width height s = Inr ((w', h'), sa)"
    and h: "hardware_supports_npot_sizes env sa = (npot, sb)"
  from from_data_returns [OF c h] obtain texture s' where r:
    "meta_cogl_texture_new_from_data_wrapper env width height flags format
       internal_format rowstride data s = Inr (texture, s')"
    by blast
  from from_data_calls [OF c h r] obtain qs ps where
    "list_all is_screen_query qs" "list_all is_capability_query ps"
    "calls sa = calls s @ qs" "calls sb = calls sa @ ps"
    and rest: "(if npot then
              calls s' = calls sb @ newer_data
                # error_report_calls ''cogl_texture_2d_new_from_data failed: ''
                    (texture_failure env (calls sb @ [newer_data]))
              \<and> texture = fst (fst (construct_texture env newer_data sb))
            else
              calls s' = calls sb @ [legacy_data]
              \<and> texture = fst (fst (construct_texture env legacy_data sb)))"
    unfolding newer_data_def legacy_data_def by blast
  then have "filter is_texture_constructor (new_calls s s') =
                   [if npot then newer_data else legacy_data]
               \<and> texture =
                   fst (fst (construct_texture env (if npot then newer_data else legacy_data) sb))"
    by (auto simp: new_calls_def filter_screen_queries filter_capability_queries
        error_report_calls_kinds newer_data_def legacy_data_def split: if_splits)
  with r show "\<exists>texture s'.
               meta_cogl_texture_new_from_data_wrapper env width height flags format
                 internal_format rowstride data s = Inr (texture, s')
               \<and> filter is_texture_constructor (new_calls s s') =
                   [if npot then newer_data else legacy_data]
               \<and> texture =
                   fst (fst (construct_texture env (if npot then newer_data else legacy_data) sb))"
    by blast
next
  assume c: "clamp_sizes env width height s = Inr ((w', h'), sa)"
    and h: "hardware_supports_npot_sizes env sa = (npot, sb)"
  from with_size_returns [OF c h] obtain texture s' where r:
    "meta_cogl_texture_new_with_size_wrapper env width height flags internal_format s =
       Inr (texture, s')"
    by blast
  from with_size_calls [OF c h r] obtain qs ps where
    "list_all is_screen_query qs" "list_all is_capability_query ps"
    "calls sa = calls s @ qs" "calls sb = calls sa @ ps"
    "calls s' = calls sb @ [if npot then newer_size else legacy_size]"
    "texture = fst (fst (construct_texture env (if npot then newer_size else legacy_size) sb))"
    unfolding newer_size_def legacy_size_def by blast
  then have "filter is_texture_constructor (new_calls s s') =
                   [if npot then newer_size else legacy_size]
               \<and> texture =
                   fst (fst (construct_texture env (if npot then newer_size else legacy_size) sb))"
    by (auto simp: new_calls_def filter_screen_queries filter_capability_queries
        newer_size_def legacy_size_def split: if_splits)
  with r show "\<exists>texture s'.
               meta_cogl_texture_new_with_size_wrapper env width height flags internal_format s =
                 Inr (texture, s')
               \<and> filter is_texture_constructor (new_calls s s') =
                   [if npot then newer_size else legacy_size]
               \<and> texture =
                   fst (fst (construct_texture env (if npot then newer_size else legacy_size) sb))"
    by blast
next
  assume h: "hardware_supports_npot_sizes env s = (npot_file, tb)"
  obtain texture s' where r:
    "meta_cogl_texture_new_from_file_wrapper env filename flags internal_format s =
       (texture, s')"
    by (cases "meta_cogl_texture_new_from_file_wrapper env filename flags internal_format s")
  from from_file_calls [OF h r] obtain ps where
    "list_all is_capability_query ps" "calls tb = calls s @ ps"
    "calls s' = calls tb @ (if npot_file then newer_file else legacy_file)
             # error_report_calls ''cogl_texture_(2d)_new_from_file failed: ''
                 (texture_failure env (calls tb @ [if npot_file then newer_file else legacy_file]))"
    "texture = fst (fst (construct_texture env (if npot_file then newer_file else legacy_file) tb))"
    unfolding newer_file_def legacy_file_def by blast
  then have "filter is_texture_constructor (new_calls s s') =
                   [if npot_file then newer_file else legacy_file]
               \<and> texture =
                   fst (fst (construct_texture env
                     (if npot_file then newer_file else legacy_file) tb))"
    by (auto simp: new_calls_def filter_capability_queries error_report_calls_kinds
        newer_file_def legacy_file_def split: if_splits)
  with r show "\<exists>texture s'.
               meta_cogl_texture_new_from_file_wrapper env filename flags internal_format s =
                 (texture, s')
               \<and> filter is_texture_constructor (new_calls s s') =
                   [if npot_file then newer_file else legacy_file]
               \<and> texture =
                   fst (fst (construct_texture env
                     (if npot_file then newer_file else legacy_file) tb))"
    by blast
qed

text \<open>
  The claim as first stated fails for the with-size wrapper: on either path the
  constructor it calls has no pixel format among its arguments.
\<close>

theorem texture_dispatch_counterexample:
  "meta_cogl_texture_new_with_size_wrapper (test_env True None 1920 1080) 800 600
     COGL_TEXTURE_NONE (COGL_PIXEL_FORMAT_OTHER 1) (cached_state True) =
   Inr (1, (cached_state True)
             \<lparr>calls := [Cogl_texture_2d_new_with_size 7 800 600 None],
              objects := [Texture (Cogl_texture_2d_new_with_size 7 800 600 None)]\<rparr>)
   \<and> pixel_format_arg (Cogl_texture_2d_new_with_size 7 800 600 None) = None
   \<and> meta_cogl_texture_new_with_size_wrapper (test_env False None 1920 1080) 800 600
     COGL_TEXTURE_NONE (COGL_PIXEL_FORMAT_OTHER 1) (cached_state False) =
   Inr (1, (cached_state False)
             \<lparr>calls := [Cogl_texture_new_with_size 800 600 COGL_TEXTURE_NONE
                          (COGL_PIXEL_FORMAT_OTHER 1)],
              objects := [Texture (Cogl_texture_new_with_size 800 600 COGL_TEXTURE_NONE
                          (COGL_PIXEL_FORMAT_OTHER 1))]\<rparr>)
   \<and> pixel_format_arg (Cogl_texture_new_with_size 800 600 COGL_TEXTURE_NONE
                          (COGL_PIXEL_FORMAT_OTHER 1)) = None"
  by (simp add: with_size_eq [OF clamp_cached_state(2) supports_cached_state]
      construct_texture_no_error_def construct_texture_eq version_format_def)

theorem texture_dispatch_witness:
  "clamp_sizes (test_env True None 1920 1080) 10000 10000 (cached_state True) =
     Inr ((3840, 2160), cached_state True)
   \<and> hardware_supports_npot_sizes (test_env True None 1920 1080) (cached_state True) =
     (True, cached_state True)
   \<and> (\<exists>texture s'.
        meta_cogl_texture_new_from_data_wrapper (test_env True None 1920 1080) 10000 10000
          COGL_TEXTURE_NONE COGL_PIXEL_FORMAT_RGBA_8888_PRE COGL_PIXEL_FORMAT_ANY 40000 []
          (cached_state True) = Inr (texture, s')
        \<and> filter is_texture_constructor (new_calls (cached_state True) s') =
            [Cogl_texture_2d_new_from_data 7 3840 2160 COGL_PIXEL_FORMAT_RGBA_8888_PRE None
               40000 []]
        \<and> texture = 1)
   \<and> (\<exists>texture s'.
        meta_cogl_texture_new_from_file_wrapper (test_env True None 1920 1080) ''a.png''
          COGL_TEXTURE_NONE COGL_PIXEL_FORMAT_ANY (cached_state True) = (texture, s')
        \<and> filter is_texture_constructor (new_calls (cached_state True) s') =
            [Cogl_texture_2d_new_from_file 7 ''a.png'' None]
        \<and> texture = 1)"
  using texture_dispatch [where env = "test_env True None 1920 1080" and width = 10000
      and height = 10000 and s = "cached_state True" and sa = "cached_state True"
      and sb = "cached_state True" and tb = "cached_state True" and w' = 3840 and h' = 2160
      and npot = True and npot_file = True and flags = COGL_TEXTURE_NONE
      and format = COGL_PIXEL_FORMAT_RGBA_8888_PRE and internal_format = COGL_PIXEL_FORMAT_ANY
      and rowstride = 40000 and data = "[]" and filename = "''a.png''"]
  by (simp add: clamp_cached_state supports_cached_state construct_texture_eq
      version_format_def)

subsection \<open>Errors of the constructors\<close>

text \<open>
  Claim C6, as amended. A wrapper that gets an error object from its constructor logs
  the library's message with \<open>meta_verbose\<close>, then frees the error, and returns the
  handle the constructor produced, whatever it is. An error object is received from
  \<open>cogl_texture_2d_new_from_data\<close> and from both from-file constructors, the newer and
  the legacy one. The legacy from-data constructor, both with-size constructors, the
  colour texture and the material helper report nothing: only a handle comes back.
\<close>

theorem error_reporting:
  fixes env :: "'c env" and sb tb :: state and w' h' rowstride :: gint
    and format internal_format :: CoglPixelFormat and flags :: CoglTextureFlags
    and data :: "guint8 list" and filename :: string and npot_file :: bool
    and newer_data legacy_data file_call :: call
  defines "newer_data \<equiv>
      Cogl_texture_2d_new_from_data (cogl_context sb) w' h' format
        (version_format env COGL_PIXEL_FORMAT_ANY) rowstride data"
    and "legacy_data \<equiv>
      Cogl_texture_new_from_data w' h' flags format internal_format rowstride data"
    and "file_call \<equiv>
      (if npot_file
       then Cogl_texture_2d_new_from_file (cogl_context tb) filename
              (version_format env COGL_PIXEL_FORMAT_ANY)
       else Cogl_texture_new_from_file filename flags internal_format)"
  shows "(clamp_sizes env width height s = Inr ((w', h'), sa) \<longrightarrow>
          hardware_supports_npot_sizes env sa = (npot, sb) \<longrightarrow>
            (\<forall>texture s'.
               meta_cogl_texture_new_from_data_wrapper env width height flags format
                 internal_format rowstride data s = Inr (texture, s') \<longrightarrow>
               filter is_error_report (new_calls s s') =
                 (if npot
                  then error_report_calls ''cogl_texture_2d_new_from_data failed: ''
                         (snd (fst (construct_texture env newer_data sb)))
                  else [])
               \<and> texture =
                   fst (fst (construct_texture env (if npot then newer_data else legacy_data) sb)))
            \<and> (\<forall>texture s'.
               meta_cogl_texture_new_with_size_wrapper env width height flags internal_format s =
                 Inr (texture, s') \<longrightarrow>
               filter is_error_report (new_calls s s') = []))
       \<and> (hardware_supports_npot_sizes env s = (npot_file, tb) \<longrightarrow>
            (\<forall>texture s'.
               meta_cogl_texture_new_from_file_wrapper env filename flags internal_format s =
                 (texture, s') \<longrightarrow>
               filter is_error_report (new_calls s s') =
                 error_report_calls ''cogl_texture_(2d)_new_from_file failed: ''
                   (snd (fst (construct_texture env file_call tb)))
               \<and> texture = fst (fst (construct_texture env file_call tb))))
       \<and> filter is_error_report
            (new_calls s (snd (meta_create_color_texture_4ub env red green blue alpha flags s))) = []
       \<and> filter is_error_report
            (new_calls s (snd (meta_create_texture_material env src_texture s))) = []"
proof (intro conjI impI allI)
  fix texture s'
  assume c: "clamp_sizes env width height s = Inr ((w', h'), sa)"
    and h: "hardware_supports_npot_sizes env sa = (npot, sb)"
    and r: "meta_cogl_texture_new_from_data_wrapper env width height flags format
                 internal_format rowstride data s = Inr (texture, s')"
  from from_data_calls [OF c h r] obtain qs ps where parts:
    "list_all is_screen_query qs" "list_all is_capability_query ps"
    "calls sa = calls s @ qs" "calls sb = calls sa @ ps"
    and rest: "(if npot then
              calls s' = calls sb @ newer_data
                # error_report_calls ''cogl_texture_2d_new_from_data failed: ''
                    (texture_failure env (calls sb @ [newer_data]))
              \<and> texture = fst (fst (construct_texture env newer_data sb))
            else
              calls s' = calls sb @ [legacy_data]
              \<and> texture = fst (fst (construct_texture env legacy_data sb)))"
    unfolding newer_data_def legacy_data_def by blast
  have err: "snd (fst (construct_texture env newer_data sb)) =
               texture_failure env (calls sb @ [newer_data])"
    by (simp add: construct_texture_eq split: option.split)
  from parts rest show "filter is_error_report (new_calls s s') =
                 (if npot
                  then error_report_calls ''cogl_texture_2d_new_from_data failed: ''
                         (snd (fst (construct_texture env newer_data sb)))
                  else [])"
    unfolding err
    by (auto simp: new_calls_def filter_screen_queries filter_capability_queries
        error_report_calls_kinds newer_data_def legacy_data_def split: if_splits)
  from rest show "texture =
      fst (fst (construct_texture env (if npot then newer_data else legacy_data) sb))"
    by (simp split: if_splits)
next
  fix texture s'
  assume c: "clamp_sizes env width height s = Inr ((w', h'), sa)"
    and h: "hardware_supports_npot_sizes env sa = (npot, sb)"
    and r: "meta_cogl_texture_new_with_size_wrapper env width height flags internal_format s =
                 Inr (texture, s')"
  from with_size_calls [OF c h r] obtain qs ps where
    "list_all is_screen_query qs" "list_all is_capability_query ps"
    "calls sa = calls s @ qs" "calls sb = calls sa @ ps"
    "calls s' = calls sb @
             [if npot then Cogl_texture_2d_new_with_size (cogl_context sb) w' h'
                             (version_format env CLUTTER_CAIRO_FORMAT_ARGB32)
              else Cogl_texture_new_with_size w' h' flags internal_format]"
    by blast
  then show "filter is_error_report (new_calls s s') = []"
    by (auto simp: new_calls_def filter_screen_queries filter_capability_queries)
next
  fix texture s'
  assume h: "hardware_supports_npot_sizes env s = (npot_file, tb)"
    and r: "meta_cogl_texture_new_from_file_wrapper env filename flags internal_format s =
                 (texture, s')"
  from from_file_calls [OF h r] obtain ps where parts:
    "list_all is_capability_query ps" "calls tb = calls s @ ps"
    "calls s' = calls tb @ file_call
             # error_report_calls ''cogl_texture_(2d)_new_from_file failed: ''
                 (texture_failure env (calls tb @ [file_call]))"
    and t: "texture = fst (fst (construct_texture env file_call tb))"
    unfolding file_call_def by blast
  have err: "snd (fst (construct_texture env file_call tb)) =
               texture_failure env (calls tb @ [file_call])"
    by (simp add: construct_texture_eq split: option.split)
  from parts show "filter is_error_report (new_calls s s') =
                 error_report_calls ''cogl_texture_(2d)_new_from_file failed: ''
                   (snd (fst (construct_texture env file_call tb)))"
    unfolding err
    by (auto simp: new_calls_def filter_capability_queries error_report_calls_kinds
        file_call_def split: if_splits)
  from t show "texture = fst (fst (construct_texture env file_call tb))" .
next
  show "filter is_error_report
          (new_calls s (snd (meta_create_color_texture_4ub env red green blue alpha flags s))) = []"
    using color_texture_frame(6) [OF surjective_pairing, of env red green blue alpha flags s]
    by (simp add: new_calls_def)
next
  from material_calls [OF surjective_pairing, of env src_texture s]
  show "filter is_error_report
          (new_calls s (snd (meta_create_texture_material env src_texture s))) = []"
    by (auto simp: new_calls_def white_texture_call_def)
qed

text \<open>
  The claim as first stated fails on the legacy path of the from-file wrapper:
  \<open>cogl_texture_new_from_file\<close> is given the error argument too, and its error is logged
  and freed.
\<close>

theorem error_reporting_counterexample:
  "meta_cogl_texture_new_from_file_wrapper
     (test_env False (Some (CoglError ''no such file'')) 1920 1080) ''missing.png''
     COGL_TEXTURE_NONE COGL_PIXEL_FORMAT_ANY (cached_state False) =
   (COGL_INVALID_HANDLE,
    (cached_state False)
      \<lparr>calls := [Cogl_texture_new_from_file ''missing.png'' COGL_TEXTURE_NONE COGL_PIXEL_FORMAT_ANY,
                 Meta_verbose (''cogl_texture_(2d)_new_from_file failed: no such file'' @ [CHR 0x0A]),
                 Cogl_error_free (CoglError ''no such file'')]\<rparr>)"
  by (simp add: from_file_eq [OF supports_cached_state] construct_texture_eq report_error_eq
      error_report_calls_def)


theorem error_reporting_witness:
  "clamp_sizes (test_env True (Some (CoglError ''out of memory'')) 1920 1080) 800 600
     (cached_state True) = Inr ((800, 600), cached_state True)
   \<and> hardware_supports_npot_sizes (test_env True (Some (CoglError ''out of memory'')) 1920 1080)
       (cached_state True) = (True, cached_state True)
   \<and> meta_cogl_texture_new_from_data_wrapper
       (test_env True (Some (CoglError ''out of memory'')) 1920 1080) 800 600 COGL_TEXTURE_NONE
       COGL_PIXEL_FORMAT_RGBA_8888_PRE COGL_PIXEL_FORMAT_ANY 3200 [] (cached_state True) =
     Inr (COGL_INVALID_HANDLE,
          (cached_state True)
            \<lparr>calls := [Cogl_texture_2d_new_from_data 7 800 600 COGL_PIXEL_FORMAT_RGBA_8888_PRE
                         None 3200 [],
                       Meta_verbose (''cogl_texture_2d_new_from_data failed: out of memory''
                                       @ [CHR 0x0A]),
                       Cogl_error_free (CoglError ''out of memory'')]\<rparr>)
   \<and> filter is_error_report
       (new_calls (cached_state True)
          ((cached_state True)
            \<lparr>calls := [Cogl_texture_2d_new_from_data 7 800 600 COGL_PIXEL_FORMAT_RGBA_8888_PRE
                         None 3200 [],
                       Meta_verbose (''cogl_texture_2d_new_from_data failed: out of memory''
                                       @ [CHR 0x0A]),
                       Cogl_error_free (CoglError ''out of memory'')]\<rparr>)) =
     [Meta_verbose (''cogl_texture_2d_new_from_data failed: out of memory'' @ [CHR 0x0A]),
      Cogl_error_free (CoglError ''out of memory'')]"
proof -
  let ?env = "test_env True (Some (CoglError ''out of memory'')) 1920 1080"
  have c: "clamp_sizes ?env 800 600 (cached_state True) = Inr ((800, 600), cached_state True)"
    by (rule clamp_cached_state)
  have h: "hardware_supports_npot_sizes ?env (cached_state True) = (True, cached_state True)"
    by (rule supports_cached_state)
  have r: "meta_cogl_texture_new_from_data_wrapper ?env 800 600 COGL_TEXTURE_NONE
       COGL_PIXEL_FORMAT_RGBA_8888_PRE COGL_PIXEL_FORMAT_ANY 3200 [] (cached_state True) =
     Inr (COGL_INVALID_HANDLE,
          (cached_state True)
            \<lparr>calls := [Cogl_texture_2d_new_from_data 7 800 600 COGL_PIXEL_FORMAT_RGBA_8888_PRE
                         None 3200 [],
                       Meta_verbose (''cogl_texture_2d_new_from_data failed: out of memory''
                                       @ [CHR 0x0A]),
                       Cogl_error_free (CoglError ''out of memory'')]\<rparr>)"
    by (simp add: from_data_eq [OF c h] construct_texture_eq report_error_eq
        error_report_calls_def version_format_def)
  from error_reporting [where env = ?env and s = "cached_state True" and sa = "cached_state True"
      and sb = "cached_state True" and width = 800 and height = 600 and w' = 800 and h' = 600
      and npot = True and flags = COGL_TEXTURE_NONE and format = COGL_PIXEL_FORMAT_RGBA_8888_PRE
      and internal_format = COGL_PIXEL_FORMAT_ANY and rowstride = 3200 and data = "[]"]
    c h r
  show ?thesis
    by (simp add: construct_texture_eq error_report_calls_def version_format_def)
qed

subsection \<open>Which wrappers clamp\<close>

text \<open>
  Claim C8. Let \<open>W\<close> and \<open>H\<close> be the screen size a call works with: the cached size,
  or on a call with an empty cache the size the screen reports. The from-data and the
  with-size wrapper clamp before they dispatch. They return a result, the one constructor
  they call is asked for width \<open>min (width, 2 * W)\<close> and height \<open>min (height, 2 * H)\<close>,
  which is what \<open>clamp_sizes\<close> returns for the request, and the cache holds \<open>W\<close> and \<open>H\<close>
  afterwards. (Where a doubled size does not fit a \<open>gint\<close> the product overflows, and
  neither \<open>clamp_sizes\<close> nor the wrappers have a defined result.) The from-file wrapper
  never clamps: it makes no screen query, leaves the cached screen size as it was, and
  does the same whatever the cache holds.
\<close>

theorem clamping_only_data_and_size:
  fixes env :: "'c env" and s :: state and screen :: pointer and queries :: "call list"
    and W H :: gint
  defines "screen \<equiv> default_screen env (calls s @ [Gdk_screen_get_default])"
    and "queries \<equiv> [Gdk_screen_get_default, Gdk_screen_get_width screen,
                       Gdk_screen_get_height screen]"
  defines "W \<equiv> (if screen_width s = 0
                   then screen_width_of env (calls s @ [Gdk_screen_get_default,
                                                        Gdk_screen_get_width screen])
                   else screen_width s)"
    and "H \<equiv> (if screen_width s = 0 then screen_height_of env (calls s @ queries)
                 else screen_height s)"
  shows "(gint_fits (2 * sint W) \<and> gint_fits (2 * sint H) \<longrightarrow>
      (\<exists>texture s' w' h' sa.
         clamp_sizes env width height s = Inr ((w', h'), sa)
         \<and> meta_cogl_texture_new_from_data_wrapper env width height flags format internal_format
             rowstride data s = Inr (texture, s')
         \<and> map size_args (filter is_texture_constructor (new_calls s s')) = [Some (w', h')]
         \<and> sint w' = min (sint width) (2 * sint W)
         \<and> sint h' = min (sint height) (2 * sint H)
         \<and> screen_width s' = W \<and> screen_height s' = H)
      \<and> (\<exists>texture s' w' h' sa.
         clamp_sizes env width height s = Inr ((w', h'), sa)
         \<and> meta_cogl_texture_new_with_size_wrapper env width height flags internal_format s =
             Inr (texture, s')
         \<and> map size_args (filter is_texture_constructor (new_calls s s')) = [Some (w', h')]
         \<and> sint w' = min (sint width) (2 * sint W)
         \<and> sint h' = min (sint height) (2 * sint H)
         \<and> screen_width s' = W \<and> screen_height s' = H))
   \<and> (\<not> (gint_fits (2 * sint W) \<and> gint_fits (2 * sint H)) \<longrightarrow>
         meta_cogl_texture_new_from_data_wrapper env width height flags format internal_format
           rowstride data s = Inl Signed_overflow
         \<and> meta_cogl_texture_new_with_size_wrapper env width height flags internal_format s =
             Inl Signed_overflow)
   \<and> (meta_cogl_texture_new_from_file_wrapper env filename flags internal_format s =
         (file_texture, file_s) \<longrightarrow>
         screen_width file_s = screen_width s \<and> screen_height file_s = screen_height s
         \<and> filter is_screen_query (new_calls s file_s) = []
         \<and> meta_cogl_texture_new_from_file_wrapper env filename flags internal_format
             (s\<lparr>screen_width := a, screen_height := b\<rparr>) =
           (file_texture, file_s\<lparr>screen_width := a, screen_height := b\<rparr>))"
proof -
  let ?sa = "if screen_width s = 0
             then s\<lparr>screen_width := W, screen_height := H, calls := calls s @ queries\<rparr>
             else s"
  let ?w = "MIN_gint width (W * 2)" and ?h = "MIN_gint height (H * 2)"
  have cl: "clamp_sizes env width height s =
     (if gint_fits (2 * sint W) \<and> gint_fits (2 * sint H)
      then Inr ((?w, ?h), ?sa) else Inl Signed_overflow)"
    unfolding W_def H_def queries_def screen_def by (rule clamp_sizes_result)
  have sa: "screen_width ?sa = W" "screen_height ?sa = H"
    by (simp_all add: W_def H_def)
  note pass = wrappers_pass_clamp_result [where env = env and width = width and height = height
      and s = s and w' = ?w and h' = ?h and sa = ?sa and flags = flags and format = format
      and internal_format = internal_format and rowstride = rowstride and data = data
      and filename = filename and file_texture = file_texture and file_s = file_s
      and a = a and b = b and f = Signed_overflow]
  have fits: "(\<exists>texture s' w' h' sa.
         clamp_sizes env width height s = Inr ((w', h'), sa)
         \<and> meta_cogl_texture_new_from_data_wrapper env width height flags format internal_format
             rowstride data s = Inr (texture, s')
         \<and> map size_args (filter is_texture_constructor (new_calls s s')) = [Some (w', h')]
         \<and> sint w' = min (sint width) (2 * sint W)
         \<and> sint h' = min (sint height) (2 * sint H)
         \<and> screen_width s' = W \<and> screen_height s' = H)
      \<and> (\<exists>texture s' w' h' sa.
         clamp_sizes env width height s = Inr ((w', h'), sa)
         \<and> meta_cogl_texture_new_with_size_wrapper env width height flags internal_format s =
             Inr (texture, s')
         \<and> map size_args (filter is_texture_constructor (new_calls s s')) = [Some (w', h')]
         \<and> sint w' = min (sint width) (2 * sint W)
         \<and> sint h' = min (sint height) (2 * sint H)
         \<and> screen_width s' = W \<and> screen_height s' = H)"
    if f: "gint_fits (2 * sint W) \<and> gint_fits (2 * sint H)"
  proof -
    from cl f have c: "clamp_sizes env width height s = Inr ((?w, ?h), ?sa)" by simp
    obtain npot sb where h: "hardware_supports_npot_sizes env ?sa = (npot, sb)"
      by (cases "hardware_supports_npot_sizes env ?sa")
    from f have m: "sint ?w = min (sint width) (2 * sint W)"
      "sint ?h = min (sint height) (2 * sint H)"
      by (simp_all add: sint_MIN_gint sint_double)
    from from_data_returns [OF c h] obtain texture s' where
      r: "meta_cogl_texture_new_from_data_wrapper env width height flags format internal_format
             rowstride data s = Inr (texture, s')"
      by blast
    from with_size_returns [OF c h] obtain texture2 s2 where
      r2: "meta_cogl_texture_new_with_size_wrapper env width height flags internal_format s =
             Inr (texture2, s2)"
      by blast
    from pass c r sa
    have d: "map size_args (filter is_texture_constructor (new_calls s s')) = [Some (?w, ?h)]"
      "screen_width s' = W" "screen_height s' = H"
      by auto
    from pass c r2 sa
    have d2: "map size_args (filter is_texture_constructor (new_calls s s2)) = [Some (?w, ?h)]"
      "screen_width s2 = W" "screen_height s2 = H"
      by auto
    have "\<exists>texture s' w' h' sa.
         clamp_sizes env width height s = Inr ((w', h'), sa)
         \<and> meta_cogl_texture_new_from_data_wrapper env width height flags format internal_format
             rowstride data s = Inr (texture, s')
         \<and> map size_args (filter is_texture_constructor (new_calls s s')) = [Some (w', h')]
         \<and> sint w' = min (sint width) (2 * sint W)
         \<and> sint h' = min (sint height) (2 * sint H)
         \<and> screen_width s' = W \<and> screen_height s' = H"
      by (rule exI [of _ texture], rule exI [of _ s'], rule exI [of _ ?w], rule exI [of _ ?h],
          rule exI [of _ ?sa]) (simp only: c r d m simp_thms)
    moreover have "\<exists>texture s' w' h' sa.
         clamp_sizes env width height s = Inr ((w', h'), sa)
         \<and> meta_cogl_texture_new_with_size_wrapper env width height flags internal_format s =
             Inr (texture, s')
         \<and> map size_args (filter is_texture_constructor (new_calls s s')) = [Some (w', h')]
         \<and> sint w' = min (sint width) (2 * sint W)
         \<and> sint h' = min (sint height) (2 * sint H)
         \<and> screen_width s' = W \<and> screen_height s' = H"
      by (rule exI [of _ texture2], rule exI [of _ s2], rule exI [of _ ?w], rule exI [of _ ?h],
          rule exI [of _ ?sa]) (simp only: c r2 d2 m simp_thms)
    ultimately show ?thesis by blast
  qed
  have over: "meta_cogl_texture_new_from_data_wrapper env width height flags format
           internal_format rowstride data s = Inl Signed_overflow
         \<and> meta_cogl_texture_new_with_size_wrapper env width height flags internal_format s =
             Inl Signed_overflow"
    if "\<not> (gint_fits (2 * sint W) \<and> gint_fits (2 * sint H))"
  proof -
    from cl that have "clamp_sizes env width height s = Inl Signed_overflow" by simp
    then show ?thesis by (simp add: from_data_fault with_size_fault)
  qed
  from pass have unclamped: "meta_cogl_texture_new_from_file_wrapper env filename flags
         internal_format s = (file_texture, file_s) \<longrightarrow>
         screen_width file_s = screen_width s \<and> screen_height file_s = screen_height s
         \<and> filter is_screen_query (new_calls s file_s) = []
         \<and> meta_cogl_texture_new_from_file_wrapper env filename flags internal_format
             (s\<lparr>screen_width := a, screen_height := b\<rparr>) =
           (file_texture, file_s\<lparr>screen_width := a, screen_height := b\<rparr>)"
    by blast
  from fits over unclamped show ?thesis by blast
qed

theorem clamping_only_data_and_size_witness:
  "gint_fits (2 * sint (screen_width (cached_state True)))
   \<and> gint_fits (2 * sint (screen_height (cached_state True)))
   \<and> meta_cogl_texture_new_from_data_wrapper (test_env True None 1920 1080) 10000 10000
       COGL_TEXTURE_NONE COGL_PIXEL_FORMAT_RGBA_8888_PRE COGL_PIXEL_FORMAT_ANY 40000 []
       (cached_state True) =
     Inr (1, (cached_state True)
               \<lparr>calls := [Cogl_texture_2d_new_from_data 7 3840 2160
                            COGL_PIXEL_FORMAT_RGBA_8888_PRE None 40000 []],
                objects := [Texture (Cogl_texture_2d_new_from_data 7 3840 2160
                            COGL_PIXEL_FORMAT_RGBA_8888_PRE None 40000 [])]\<rparr>)
   \<and> map size_args (filter is_texture_constructor (new_calls (cached_state True)
         ((cached_state True)
               \<lparr>calls := [Cogl_texture_2d_new_from_data 7 3840 2160
                            COGL_PIXEL_FORMAT_RGBA_8888_PRE None 40000 []],
                objects := [Texture (Cogl_texture_2d_new_from_data 7 3840 2160
                            COGL_PIXEL_FORMAT_RGBA_8888_PRE None 40000 [])]\<rparr>))) =
       [Some (3840, 2160)]
   \<and> meta_cogl_texture_new_with_size_wrapper (test_env False None 1920 1080) 10000 10000
       COGL_TEXTURE_NONE COGL_PIXEL_FORMAT_ANY (cached_state False) =
     Inr (1, (cached_state False)
               \<lparr>calls := [Cogl_texture_new_with_size 3840 2160 COGL_TEXTURE_NONE
                            COGL_PIXEL_FORMAT_ANY],
                objects := [Texture (Cogl_texture_new_with_size 3840 2160 COGL_TEXTURE_NONE
                            COGL_PIXEL_FORMAT_ANY)]\<rparr>)
   \<and> meta_cogl_texture_new_with_size_wrapper (test_env True None 1920 1080) 10000 10000
       COGL_TEXTURE_NONE COGL_PIXEL_FORMAT_ANY initial_state =
     Inr (1, (cached_state True)
               \<lparr>calls := [Gdk_screen_get_default, Gdk_screen_get_width 9,
                          Gdk_screen_get_height 9, Clutter_get_default_backend,
                          Clutter_backend_get_cogl_context 5, Cogl_has_feature 7,
                          Cogl_texture_2d_new_with_size 7 3840 2160 None],
                objects := [Texture (Cogl_texture_2d_new_with_size 7 3840 2160 None)]\<rparr>)
   \<and> meta_cogl_texture_new_from_file_wrapper (test_env True None 1920 1080) ''a.png''
       COGL_TEXTURE_NONE COGL_PIXEL_FORMAT_ANY initial_state =
     (1, initial_state
           \<lparr>cogl_context := 7, supports_npot := True,
            calls := [Clutter_get_default_backend, Clutter_backend_get_cogl_context 5,
                      Cogl_has_feature 7, Cogl_texture_2d_new_from_file 7 ''a.png'' None],
            objects := [Texture (Cogl_texture_2d_new_from_file 7 ''a.png'' None)]\<rparr>)
   \<and> screen_width (initial_state
           \<lparr>cogl_context := 7, supports_npot := True,
            calls := [Clutter_get_default_backend, Clutter_backend_get_cogl_context 5,
                      Cogl_has_feature 7, Cogl_texture_2d_new_from_file 7 ''a.png'' None],
            objects := [Texture (Cogl_texture_2d_new_from_file 7 ''a.png'' None)]\<rparr>) = 0"
proof -
  let ?env = "test_env True None 1920 1080"
  let ?sa = "screen_1920_state\<lparr>calls := [Gdk_screen_get_default, Gdk_screen_get_width 9,
                                       Gdk_screen_get_height 9]\<rparr>"
  let ?s' = "(cached_state True)
               \<lparr>calls := [Gdk_screen_get_default, Gdk_screen_get_width 9,
                          Gdk_screen_get_height 9, Clutter_get_default_backend,
                          Clutter_backend_get_cogl_context 5, Cogl_has_feature 7,
                          Cogl_texture_2d_new_with_size 7 3840 2160 None],
                objects := [Texture (Cogl_texture_2d_new_with_size 7 3840 2160 None)]\<rparr>"
  let ?sf = "initial_state
           \<lparr>cogl_context := 7, supports_npot := True,
            calls := [Clutter_get_default_backend, Clutter_backend_get_cogl_context 5,
                      Cogl_has_feature 7, Cogl_texture_2d_new_from_file 7 ''a.png'' None],
            objects := [Texture (Cogl_texture_2d_new_from_file 7 ''a.png'' None)]\<rparr>"
  have fits: "gint_fits (2 * sint (screen_width (cached_state True)))"
    "gint_fits (2 * sint (screen_height (cached_state True)))"
    by (simp_all add: gint_fits_def)
  have dat: "meta_cogl_texture_new_from_data_wrapper ?env 10000 10000
       COGL_TEXTURE_NONE COGL_PIXEL_FORMAT_RGBA_8888_PRE COGL_PIXEL_FORMAT_ANY 40000 []
       (cached_state True) =
     Inr (1, (cached_state True)
               \<lparr>calls := [Cogl_texture_2d_new_from_data 7 3840 2160
                            COGL_PIXEL_FORMAT_RGBA_8888_PRE None 40000 []],
                objects := [Texture (Cogl_texture_2d_new_from_data 7 3840 2160
                            COGL_PIXEL_FORMAT_RGBA_8888_PRE None 40000 [])]\<rparr>)"
    unfolding from_data_eq [OF clamp_cached_state(1) supports_cached_state]
    by (simp add: construct_texture_eq report_error_eq error_report_calls_def
        version_format_def)
  have siz: "meta_cogl_texture_new_with_size_wrapper (test_env False None 1920 1080) 10000 10000
       COGL_TEXTURE_NONE COGL_PIXEL_FORMAT_ANY (cached_state False) =
     Inr (1, (cached_state False)
               \<lparr>calls := [Cogl_texture_new_with_size 3840 2160 COGL_TEXTURE_NONE
                            COGL_PIXEL_FORMAT_ANY],
                objects := [Texture (Cogl_texture_new_with_size 3840 2160 COGL_TEXTURE_NONE
                            COGL_PIXEL_FORMAT_ANY)]\<rparr>)"
    unfolding with_size_eq [OF clamp_cached_state(1) supports_cached_state]
    by (simp add: construct_texture_no_error_def construct_texture_eq)
  have c: "clamp_sizes ?env 10000 10000 initial_state = Inr ((3840, 2160), ?sa)"
    by (simp add: clamp_uncached initial_state_def screen_1920_state_def
        gint_fits_def MIN_gint_def word_sless_alt Let_def)
  have h: "hardware_supports_npot_sizes ?env ?sa =
             (True, ?sa\<lparr>cogl_context := 7, supports_npot := True,
                        calls := calls ?sa @ [Clutter_get_default_backend,
                          Clutter_backend_get_cogl_context 5, Cogl_has_feature 7]\<rparr>)"
    by (simp add: supports_uncached initial_state_def screen_1920_state_def Let_def)
  have r: "meta_cogl_texture_new_with_size_wrapper ?env 10000 10000
       COGL_TEXTURE_NONE COGL_PIXEL_FORMAT_ANY initial_state = Inr (1, ?s')"
    unfolding with_size_eq [OF c h]
    by (simp add: construct_texture_no_error_def construct_texture_eq
        version_format_def cached_state_def screen_1920_state_def initial_state_def)
  have hf: "hardware_supports_npot_sizes ?env initial_state =
             (True, initial_state\<lparr>cogl_context := 7, supports_npot := True,
                        calls := [Clutter_get_default_backend,
                          Clutter_backend_get_cogl_context 5, Cogl_has_feature 7]\<rparr>)"
    by (simp add: supports_uncached initial_state_def Let_def)
  have f: "meta_cogl_texture_new_from_file_wrapper ?env ''a.png''
       COGL_TEXTURE_NONE COGL_PIXEL_FORMAT_ANY initial_state = (1, ?sf)"
    unfolding from_file_eq [OF hf]
    by (simp add: construct_texture_eq report_error_eq
        error_report_calls_def version_format_def initial_state_def)
  from clamping_only_data_and_size [where env = ?env and s = "cached_state True"
      and width = 10000 and height = 10000 and flags = COGL_TEXTURE_NONE
      and format = COGL_PIXEL_FORMAT_RGBA_8888_PRE and internal_format = COGL_PIXEL_FORMAT_ANY
      and rowstride = 40000 and data = "[]" and filename = "''a.png''"
      and file_texture = 1 and file_s = ?sf and a = 0 and b = 0]
    clamping_only_data_and_size [where env = ?env and s = initial_state
      and width = 10000 and height = 10000 and flags = COGL_TEXTURE_NONE
      and format = COGL_PIXEL_FORMAT_RGBA_8888_PRE and internal_format = COGL_PIXEL_FORMAT_ANY
      and rowstride = 40000 and data = "[]" and filename = "''a.png''"
      and file_texture = 1 and file_s = ?sf and a = 0 and b = 0]
    fits dat siz r f
  show ?thesis by (simp add: initial_state_def)
qed

subsection \<open>Arguments that the newer path drops\<close>

text \<open>
  Claim C9. When the capability cache is filled and says that non-power-of-two sizes are
  supported, the from-data and the with-size wrapper do not depend on the caller's flags
  and internal format: two calls that differ only in these arguments have the same
  outcome, that is the same handle, the same calls to the collaborators and the same
  final state.
\<close>

theorem flags_ignored_when_npot:
  assumes "cogl_context s \<noteq> NULL" and "supports_npot s"
  shows "meta_cogl_texture_new_from_data_wrapper env width height flags format internal_format
           rowstride data s =
         meta_cogl_texture_new_from_data_wrapper env width height flags' format internal_format'
           rowstride data s
       \<and> meta_cogl_texture_new_with_size_wrapper env width height flags internal_format s =
         meta_cogl_texture_new_with_size_wrapper env width height flags' internal_format' s"
proof (cases "clamp_sizes env width height s")
  case (Inl f)
  then show ?thesis by (simp add: from_data_fault with_size_fault)
next
  case (Inr r)
  then obtain w' h' sa where c: "clamp_sizes env width height s = Inr ((w', h'), sa)"
    by (cases r) auto
  from clamp_sizes_frame(2,3) [OF c] assms
  have "cogl_context sa \<noteq> NULL" "supports_npot sa" by simp_all
  then have h: "hardware_supports_npot_sizes env sa = (True, sa)"
    by (simp add: supports_cached)
  show ?thesis by (simp add: from_data_eq [OF c h] with_size_eq [OF c h])
qed

theorem flags_ignored_when_npot_witness:
  "cogl_context (cached_state True) \<noteq> NULL \<and> supports_npot (cached_state True)
   \<and> meta_cogl_texture_new_from_data_wrapper (test_env True None 1920 1080) 800 600
       COGL_TEXTURE_NONE COGL_PIXEL_FORMAT_RGBA_8888_PRE COGL_PIXEL_FORMAT_ANY 3200 []
       (cached_state True) =
     meta_cogl_texture_new_from_data_wrapper (test_env True None 1920 1080) 800 600
       2 COGL_PIXEL_FORMAT_RGBA_8888_PRE (COGL_PIXEL_FORMAT_OTHER 5) 3200 []
       (cached_state True)
   \<and> meta_cogl_texture_new_from_data_wrapper (test_env True None 1920 1080) 800 600
       2 COGL_PIXEL_FORMAT_RGBA_8888_PRE (COGL_PIXEL_FORMAT_OTHER 5) 3200 []
       (cached_state True) =
     Inr (1, (cached_state True)
               \<lparr>calls := [Cogl_texture_2d_new_from_data 7 800 600
                            COGL_PIXEL_FORMAT_RGBA_8888_PRE None 3200 []],
                objects := [Texture (Cogl_texture_2d_new_from_data 7 800 600
                            COGL_PIXEL_FORMAT_RGBA_8888_PRE None 3200 [])]\<rparr>)"
proof -
  have a: "cogl_context (cached_state True) \<noteq> NULL" "supports_npot (cached_state True)"
    by (simp_all add: NULL_def)
  have "meta_cogl_texture_new_from_data_wrapper (test_env True None 1920 1080) 800 600
       2 COGL_PIXEL_FORMAT_RGBA_8888_PRE (COGL_PIXEL_FORMAT_OTHER 5) 3200 []
       (cached_state True) =
     Inr (1, (cached_state True)
               \<lparr>calls := [Cogl_texture_2d_new_from_data 7 800 600
                            COGL_PIXEL_FORMAT_RGBA_8888_PRE None 3200 []],
                objects := [Texture (Cogl_texture_2d_new_from_data 7 800 600
                            COGL_PIXEL_FORMAT_RGBA_8888_PRE None 3200 [])]\<rparr>)"
    by (simp add: from_data_eq [OF clamp_cached_state(2) supports_cached_state]
        construct_texture_eq report_error_eq error_report_calls_def version_format_def)
  with a flags_ignored_when_npot [OF a, of "test_env True None 1920 1080" 800 600
      COGL_TEXTURE_NONE COGL_PIXEL_FORMAT_RGBA_8888_PRE COGL_PIXEL_FORMAT_ANY 3200 "[]"
      2 "COGL_PIXEL_FORMAT_OTHER 5"]
  show ?thesis by simp
qed

subsection \<open>The colour texture\<close>

text \<open>
  Claim C4. For all four 8-bit channel values, \<open>meta_create_color_texture_4ub\<close> makes one
  request: a texture of width 1 and height 1 in the format
  \<open>COGL_PIXEL_FORMAT_RGBA_8888_PRE\<close> with rowstride 4, from a pixel of four bytes. The
  bytes are the red, green, blue and alpha byte, in this order, of the colour after
  \<open>cogl_color_premultiply\<close>. A texture that is made holds exactly this pixel. For
  (255, 0, 0, 255) these are the bytes of the premultiplied colour; with the rounding
  premultiplication of the test double they are 255, 0, 0, 255 (the witness).
\<close>

theorem color_texture_request:
  assumes "meta_create_color_texture_4ub env red green blue alpha flags s = (texture, s')"
  shows "new_calls s s' =
           [Cogl_texture_new_from_data 1 1 flags COGL_PIXEL_FORMAT_RGBA_8888_PRE
              COGL_PIXEL_FORMAT_ANY 4 (premultiplied_pixel env red green blue alpha)]
       \<and> premultiplied_pixel env red green blue alpha =
           [cogl_color_get_red_byte env
              (cogl_color_premultiply env (cogl_color_set_from_4ub env red green blue alpha)),
            cogl_color_get_green_byte env
              (cogl_color_premultiply env (cogl_color_set_from_4ub env red green blue alpha)),
            cogl_color_get_blue_byte env
              (cogl_color_premultiply env (cogl_color_set_from_4ub env red green blue alpha)),
            cogl_color_get_alpha_byte env
              (cogl_color_premultiply env (cogl_color_set_from_4ub env red green blue alpha))]
       \<and> (texture \<noteq> COGL_INVALID_HANDLE \<longrightarrow>
            object_at s' texture =
              Some (Texture (Cogl_texture_new_from_data 1 1 flags COGL_PIXEL_FORMAT_RGBA_8888_PRE
                     COGL_PIXEL_FORMAT_ANY 4 (premultiplied_pixel env red green blue alpha))))"
proof (intro conjI impI)
  from color_texture_frame(6) [OF assms]
  show "new_calls s s' =
           [Cogl_texture_new_from_data 1 1 flags COGL_PIXEL_FORMAT_RGBA_8888_PRE
              COGL_PIXEL_FORMAT_ANY 4 (premultiplied_pixel env red green blue alpha)]"
    by simp
  show "premultiplied_pixel env red green blue alpha =
           [cogl_color_get_red_byte env
              (cogl_color_premultiply env (cogl_color_set_from_4ub env red green blue alpha)),
            cogl_color_get_green_byte env
              (cogl_color_premultiply env (cogl_color_set_from_4ub env red green blue alpha)),
            cogl_color_get_blue_byte env
              (cogl_color_premultiply env (cogl_color_set_from_4ub env red green blue alpha)),
            cogl_color_get_alpha_byte env
              (cogl_color_premultiply env (cogl_color_set_from_4ub env red green blue alpha))]"
    by (simp add: premultiplied_pixel_def rgba_bytes_def)
  assume "texture \<noteq> COGL_INVALID_HANDLE"
  with color_texture_frame(7,8) [OF assms]
  show "object_at s' texture =
              Some (Texture (Cogl_texture_new_from_data 1 1 flags COGL_PIXEL_FORMAT_RGBA_8888_PRE
                     COGL_PIXEL_FORMAT_ANY 4 (premultiplied_pixel env red green blue alpha)))"
    by (simp add: object_at_def)
qed

theorem color_texture_request_witness:
  "meta_create_color_texture_4ub (test_env True None 1920 1080) 255 0 0 255 COGL_TEXTURE_NONE
     initial_state =
   (1, initial_state
         \<lparr>calls := [Cogl_texture_new_from_data 1 1 COGL_TEXTURE_NONE
                      COGL_PIXEL_FORMAT_RGBA_8888_PRE COGL_PIXEL_FORMAT_ANY 4 [255, 0, 0, 255]],
          objects := [Texture (Cogl_texture_new_from_data 1 1 COGL_TEXTURE_NONE
                      COGL_PIXEL_FORMAT_RGBA_8888_PRE COGL_PIXEL_FORMAT_ANY 4 [255, 0, 0, 255])]\<rparr>)
   \<and> object_at
        (initial_state
         \<lparr>calls := [Cogl_texture_new_from_data 1 1 COGL_TEXTURE_NONE
                      COGL_PIXEL_FORMAT_RGBA_8888_PRE COGL_PIXEL_FORMAT_ANY 4 [255, 0, 0, 255]],
          objects := [Texture (Cogl_texture_new_from_data 1 1 COGL_TEXTURE_NONE
                      COGL_PIXEL_FORMAT_RGBA_8888_PRE COGL_PIXEL_FORMAT_ANY 4 [255, 0, 0, 255])]\<rparr>)
        1 =
      Some (Texture (Cogl_texture_new_from_data 1 1 COGL_TEXTURE_NONE
                      COGL_PIXEL_FORMAT_RGBA_8888_PRE COGL_PIXEL_FORMAT_ANY 4 [255, 0, 0, 255]))"
  using color_texture_request [OF color_texture_red] color_texture_red
  by (simp add: test_env_pixel COGL_INVALID_HANDLE_def)


text \<open>
  Claim C10. \<open>meta_create_color_texture_4ub\<close> makes exactly one call, to the legacy
  constructor \<open>cogl_texture_new_from_data\<close> with width 1 and height 1. It makes no
  capability query and no screen query, calls no 2D constructor, leaves the two caches
  as they are, and returns the same whatever the caches hold.
\<close>

theorem color_texture_direct:
  assumes "meta_create_color_texture_4ub env red green blue alpha flags s = (texture, s')"
  shows "new_calls s s' =
           [Cogl_texture_new_from_data 1 1 flags COGL_PIXEL_FORMAT_RGBA_8888_PRE
              COGL_PIXEL_FORMAT_ANY 4 (premultiplied_pixel env red green blue alpha)]
       \<and> filter is_capability_query (new_calls s s') = []
       \<and> filter is_screen_query (new_calls s s') = []
       \<and> cogl_context s' = cogl_context s \<and> supports_npot s' = supports_npot s
       \<and> screen_width s' = screen_width s \<and> screen_height s' = screen_height s
       \<and> meta_create_color_texture_4ub env red green blue alpha flags
            (s\<lparr>cogl_context := ctx, supports_npot := npot,
               screen_width := w, screen_height := h\<rparr>) =
          (texture, s'\<lparr>cogl_context := ctx, supports_npot := npot,
                       screen_width := w, screen_height := h\<rparr>)"
proof -
  have "new_calls s s' =
           [Cogl_texture_new_from_data 1 1 flags COGL_PIXEL_FORMAT_RGBA_8888_PRE
              COGL_PIXEL_FORMAT_ANY 4 (premultiplied_pixel env red green blue alpha)]"
    using color_texture_frame(6) [OF assms] by simp
  moreover have "meta_create_color_texture_4ub env red green blue alpha flags
            (s\<lparr>cogl_context := ctx, supports_npot := npot,
               screen_width := w, screen_height := h\<rparr>) =
          (texture, s'\<lparr>cogl_context := ctx, supports_npot := npot,
                       screen_width := w, screen_height := h\<rparr>)"
    using assms
    by (auto simp: color_texture_eq construct_texture_no_error_def construct_texture_eq
        split: option.splits)
  ultimately show ?thesis
    using color_texture_frame(2-5) [OF assms] by simp
qed

theorem color_texture_direct_witness:
  "meta_create_color_texture_4ub (test_env True None 1920 1080) 255 255 255 255 2
     (cached_state True) =
   (1, (cached_state True)
         \<lparr>calls := [Cogl_texture_new_from_data 1 1 2
                      COGL_PIXEL_FORMAT_RGBA_8888_PRE COGL_PIXEL_FORMAT_ANY 4
                      [255, 255, 255, 255]],
          objects := [Texture (Cogl_texture_new_from_data 1 1 2
                      COGL_PIXEL_FORMAT_RGBA_8888_PRE COGL_PIXEL_FORMAT_ANY 4
                      [255, 255, 255, 255])]\<rparr>)
   \<and> meta_create_color_texture_4ub (test_env True None 1920 1080) 255 255 255 255 2
     ((cached_state True)\<lparr>cogl_context := NULL, supports_npot := False,
                          screen_width := 0, screen_height := 0\<rparr>) =
   (1, (cached_state True)
         \<lparr>calls := [Cogl_texture_new_from_data 1 1 2
                      COGL_PIXEL_FORMAT_RGBA_8888_PRE COGL_PIXEL_FORMAT_ANY 4
                      [255, 255, 255, 255]],
          objects := [Texture (Cogl_texture_new_from_data 1 1 2
                      COGL_PIXEL_FORMAT_RGBA_8888_PRE COGL_PIXEL_FORMAT_ANY 4
                      [255, 255, 255, 255])],
          cogl_context := NULL, supports_npot := False,
          screen_width := 0, screen_height := 0\<rparr>)"
proof -
  let ?s' = "(cached_state True)
         \<lparr>calls := [Cogl_texture_new_from_data 1 1 2
                      COGL_PIXEL_FORMAT_RGBA_8888_PRE COGL_PIXEL_FORMAT_ANY 4
                      [255, 255, 255, 255]],
          objects := [Texture (Cogl_texture_new_from_data 1 1 2
                      COGL_PIXEL_FORMAT_RGBA_8888_PRE COGL_PIXEL_FORMAT_ANY 4
                      [255, 255, 255, 255])]\<rparr>"
  have r: "meta_create_color_texture_4ub (test_env True None 1920 1080) 255 255 255 255 2
     (cached_state True) = (1, ?s')"
    by (simp add: color_texture_eq construct_texture_no_error_def construct_texture_eq
        test_env_pixel)
  from color_texture_direct [OF r, where ctx = NULL and npot = False and w = 0 and h = 0] r
  show ?thesis by simp
qed

subsection \<open>Clamping without a screen\<close>

text \<open>
  Claim C7, as amended. A cached width of 0 is how \<open>clamp_sizes\<close> remembers that it has
  no screen size yet, so a call in that state asks the screen again. When the answer is
  0 by 0, the cache keeps 0 and 0 and the call returns (min (width, 0), min (height, 0)),
  which is (0, 0) for a request that is not negative; nothing in the code guards against
  it. This lasts only while the screen keeps answering 0: the call that gets a real size
  caches it and clamps by it.
\<close>

theorem clamp_sizes_unpopulated:
  fixes env :: "'c env" and s :: state and screen :: pointer and queries :: "call list"
    and reported_width reported_height :: gint
  defines "screen \<equiv> default_screen env (calls s @ [Gdk_screen_get_default])"
    and "queries \<equiv> [Gdk_screen_get_default, Gdk_screen_get_width screen,
                       Gdk_screen_get_height screen]"
    and "reported_width \<equiv> screen_width_of env (calls s @ [Gdk_screen_get_default, Gdk_screen_get_width screen])"
    and "reported_height \<equiv> screen_height_of env (calls s @ queries)"
  assumes "screen_width s = 0"
  shows "(reported_width = 0 \<and> reported_height = 0 \<longrightarrow>
           clamp_sizes env width height s =
             Inr ((MIN_gint width 0, MIN_gint height 0),
                  s\<lparr>screen_width := 0, screen_height := 0, calls := calls s @ queries\<rparr>)
           \<and> (0 \<le> sint width \<longrightarrow> MIN_gint width 0 = 0)
           \<and> (0 \<le> sint height \<longrightarrow> MIN_gint height 0 = 0))
       \<and> (gint_fits (2 * sint reported_width) \<and> gint_fits (2 * sint reported_height) \<longrightarrow>
           clamp_sizes env width height s =
             Inr ((MIN_gint width (reported_width * 2), MIN_gint height (reported_height * 2)),
                  s\<lparr>screen_width := reported_width, screen_height := reported_height,
                    calls := calls s @ queries\<rparr>))"
  using assms
  by (simp add: clamp_uncached Let_def gint_fits_def MIN_gint_0)

text \<open>
  The claim as first stated fails when the screen appears between two calls: the first
  call returns (0, 0), the second one asks again and leaves (800, 600) as it is.
\<close>

theorem clamp_sizes_unpopulated_counterexample:
  "clamp_sizes late_screen_env 800 600 initial_state =
     Inr ((0, 0), initial_state\<lparr>calls := [Gdk_screen_get_default, Gdk_screen_get_width 9,
                                          Gdk_screen_get_height 9]\<rparr>)
   \<and> clamp_sizes late_screen_env 800 600
       (initial_state\<lparr>calls := [Gdk_screen_get_default, Gdk_screen_get_width 9,
                                 Gdk_screen_get_height 9]\<rparr>) =
     Inr ((800, 600),
          screen_1920_state\<lparr>calls := [Gdk_screen_get_default, Gdk_screen_get_width 9,
                                       Gdk_screen_get_height 9, Gdk_screen_get_default,
                                       Gdk_screen_get_width 9, Gdk_screen_get_height 9]\<rparr>)"
  by (simp add: clamp_uncached initial_state_def screen_1920_state_def Let_def gint_fits_def
      MIN_gint_def word_sless_alt)

theorem clamp_sizes_unpopulated_witness:
  "screen_width initial_state = 0
   \<and> screen_width_of (test_env True None 0 0)
        (calls initial_state @ [Gdk_screen_get_default, Gdk_screen_get_width 9]) = 0
   \<and> screen_height_of (test_env True None 0 0)
        (calls initial_state @ [Gdk_screen_get_default, Gdk_screen_get_width 9,
                                Gdk_screen_get_height 9]) = 0
   \<and> clamp_sizes (test_env True None 0 0) 800 600 initial_state =
       Inr ((0, 0), initial_state\<lparr>calls := [Gdk_screen_get_default, Gdk_screen_get_width 9,
                                            Gdk_screen_get_height 9]\<rparr>)
   \<and> clamp_sizes (test_env True None 0 0) (- 5) 600 initial_state =
       Inr ((- 5, 0), initial_state\<lparr>calls := [Gdk_screen_get_default, Gdk_screen_get_width 9,
                                            Gdk_screen_get_height 9]\<rparr>)"
proof -
  have z: "screen_width initial_state = 0" by (simp add: initial_state_def)
  from clamp_sizes_unpopulated [OF z, of "test_env True None 0 0" 800 600]
    clamp_sizes_unpopulated [OF z, of "test_env True None 0 0" "- 5" 600]
  show ?thesis
    by (simp add: initial_state_def MIN_gint_def word_sless_alt)
qed

subsection \<open>Filled caches stay\<close>

text \<open>
  Claim C3. The capability cache is filled when \<open>cogl_context\<close> is not \<open>NULL\<close>, the
  screen-size cache when \<open>screen_width\<close> is not 0. From a state with a filled cache, after
  any sequence of calls of the functions of the file, the cache holds the same values,
  no query of the backend (of the screen) has been made again, and every call of
  \<open>hardware_supports_npot_sizes\<close> (of \<open>clamp_sizes\<close>) in the sequence returned what the
  cache held at the start, whatever the collaborators would answer now.
\<close>

theorem caches_sticky:
  assumes "run env cs s = Inr (rs, s')"
  shows "(cogl_context s \<noteq> NULL \<longrightarrow>
           cogl_context s' = cogl_context s \<and> supports_npot s' = supports_npot s
           \<and> filter is_capability_query (new_calls s s') = []
           \<and> hardware_supports_npot_sizes env s' = (supports_npot s, s')
           \<and> (\<forall>(c, r) \<in> set (zip cs rs).
                 c = Supports_npot_sizes \<longrightarrow> r = Flag (supports_npot s)))
       \<and> (screen_width s \<noteq> 0 \<longrightarrow>
           screen_width s' = screen_width s \<and> screen_height s' = screen_height s
           \<and> filter is_screen_query (new_calls s s') = []
           \<and> (\<forall>(c, r) \<in> set (zip cs rs). \<forall>w h.
                 c = Clamp_sizes w h \<longrightarrow>
                 r = Sizes (MIN_gint w (screen_width s * 2))
                       (MIN_gint h (screen_height s * 2))))"
proof (intro conjI impI)
  from caches_kept_run [OF assms] obtain new where new: "calls s' = calls s @ new"
    "cogl_context s \<noteq> NULL \<longrightarrow>
       cogl_context s' = cogl_context s \<and> supports_npot s' = supports_npot s
       \<and> filter is_capability_query new = []"
    "screen_width s \<noteq> 0 \<longrightarrow>
       screen_width s' = screen_width s \<and> screen_height s' = screen_height s
       \<and> filter is_screen_query new = []"
    unfolding caches_kept_def by blast
  {
    assume c: "cogl_context s \<noteq> NULL"
    with new show "cogl_context s' = cogl_context s" "supports_npot s' = supports_npot s"
      "filter is_capability_query (new_calls s s') = []"
      by simp_all
    with c show "hardware_supports_npot_sizes env s' = (supports_npot s, s')"
      by (simp add: supports_cached)
    from run_cached_results(1) [OF assms c]
    show "\<forall>(c, r) \<in> set (zip cs rs). c = Supports_npot_sizes \<longrightarrow> r = Flag (supports_npot s)" .
  }
  {
    assume w: "screen_width s \<noteq> 0"
    with new show "screen_width s' = screen_width s" "screen_height s' = screen_height s"
      "filter is_screen_query (new_calls s s') = []"
      by simp_all
    from run_cached_results(2) [OF assms w]
    show "\<forall>(c, r) \<in> set (zip cs rs). \<forall>w h.
                 c = Clamp_sizes w h \<longrightarrow>
                 r = Sizes (MIN_gint w (screen_width s * 2))
                       (MIN_gint h (screen_height s * 2))" .
  }
qed


theorem caches_sticky_witness:
  "run (test_env False None 800 600)
     [Supports_npot_sizes, Clamp_sizes 10000 10000,
      New_with_size 10000 10000 COGL_TEXTURE_NONE COGL_PIXEL_FORMAT_ANY,
      Supports_npot_sizes, Clamp_sizes 800 600] (cached_state True) =
   Inr ([Flag True, Sizes 3840 2160, Handle 1, Flag True, Sizes 800 600],
        (cached_state True)
          \<lparr>calls := [Cogl_texture_2d_new_with_size 7 3840 2160 None],
           objects := [Texture (Cogl_texture_2d_new_with_size 7 3840 2160 None)]\<rparr>)
   \<and> cogl_context (cached_state True) \<noteq> NULL
   \<and> screen_width (cached_state True) \<noteq> 0
   \<and> filter is_capability_query
        (new_calls (cached_state True)
           ((cached_state True)
              \<lparr>calls := [Cogl_texture_2d_new_with_size 7 3840 2160 None],
               objects := [Texture (Cogl_texture_2d_new_with_size 7 3840 2160 None)]\<rparr>)) = []
   \<and> filter is_screen_query
        (new_calls (cached_state True)
           ((cached_state True)
              \<lparr>calls := [Cogl_texture_2d_new_with_size 7 3840 2160 None],
               objects := [Texture (Cogl_texture_2d_new_with_size 7 3840 2160 None)]\<rparr>)) = []
   \<and> hardware_supports_npot_sizes (test_env False None 800 600)
        ((cached_state True)
              \<lparr>calls := [Cogl_texture_2d_new_with_size 7 3840 2160 None],
               objects := [Texture (Cogl_texture_2d_new_with_size 7 3840 2160 None)]\<rparr>) =
       (True, (cached_state True)
              \<lparr>calls := [Cogl_texture_2d_new_with_size 7 3840 2160 None],
               objects := [Texture (Cogl_texture_2d_new_with_size 7 3840 2160 None)]\<rparr>)"
  using caches_sticky [OF run_changed_answers] run_changed_answers
  by (simp add: NULL_def)

subsection \<open>The template material\<close>



end
